theory Spec2Isabelle
  imports Complex_Main "HOL-Library.Word" "HOL-Library.Sublist"
begin

unbundle bit_operations_syntax

section \<open>Conventions\<close>

text \<open>
  The development embeds the non-presentational logic of
  \<^verbatim>\<open>src/FRONTEND/pothole-mapping-platform/src/App.jsx\<close>.

  \<^item> A JavaScript number that the code only uses as an integer is an \<open>int\<close> or a
    \<open>nat\<close>; the operands of the bitwise operators and of \<open>Math.imul\<close> are
    \<open>32 word\<close>s. Every other number is the \<open>real\<close> it denotes: the rounding of
    IEEE doubles and the infinities are not modelled, and \<open>NaN\<close> is \<open>None\<close> where the
    code can meet it (the results of \<open>Number\<close> and \<open>parseFloat\<close>).
  \<^item> The enumerated strings of the code (severities, statuses, date ranges, colours)
    are HOL strings.
  \<^item> What the code calls in a library or in the runtime and does not define itself is
    a parameter of the definitions: \<open>turf.distance\<close>, \<open>turf.booleanPointInPolygon\<close>,
    the clock (\<open>Date.now()\<close>, \<open>new Date()\<close>), \<open>Number\<close> and \<open>parseFloat\<close> on strings,
    the Unicode tables behind \<open>toLowerCase\<close> and \<open>normalize('NFKD')\<close>, the bounds that
    Leaflet computes, and the geocoding service.
  \<^item> An exception is a value: a function that may throw returns \<open>exn + 'a\<close>, with
    \<open>Inl\<close> for the exception. A handler is a function from the state to the state.
\<close>

section \<open>Constants\<close>

definition STATUSES :: "string list" where
  "STATUSES = [''pending'', ''inProgress'', ''repaired'']"

definition SEVERITIES :: "string list" where
  "SEVERITIES = [''critical'', ''high'', ''medium'', ''low'']"

definition severityColors :: "string \<rightharpoonup> string" where
  "severityColors =
     [''critical'' \<mapsto> ''#dc2626'', ''high'' \<mapsto> ''#ea580c'',
      ''medium'' \<mapsto> ''#f59e0b'', ''low'' \<mapsto> ''#84cc16'']"

section \<open>The synthetic record generator\<close>

subsection \<open>mulberry32\<close>

text \<open>
  One call of the closure that \<open>mulberry32(seed)\<close> returns; the closure's variable
  \<open>seed\<close> is threaded through. The source adds \<open>0x6d2b79f5\<close> to \<open>seed\<close> without
  wrapping (there is no \<open>| 0\<close>), so \<open>seed\<close> is an unbounded integer here; the bitwise
  operators and \<open>Math.imul\<close> read their operands modulo \<open>2 ^ 32\<close> (\<open>word_of_int\<close>),
  \<open>>>>\<close> is the logical shift \<open>drop_bit\<close>, and \<open>>>> 0\<close> reads the result as
  unsigned (\<open>unat\<close>). The result is the pair of the returned number and the new
  value of \<open>seed\<close>. The generator below calls the closure at most 24000 times, so
  \<open>seed\<close> stays below \<open>2 ^ 53\<close> (lemma \<open>seed_is_exact\<close>) and the double of the source
  holds it exactly.
\<close>

definition mulberry32 :: "int \<Rightarrow> real \<times> int" where
  "mulberry32 seed =
    (let seed' = seed + 0x6d2b79f5;
         t0 = (word_of_int seed' :: 32 word);
         t1 = (t0 XOR drop_bit 15 t0) * (t0 OR 1);
         t2 = t1 XOR (t1 + (t1 XOR drop_bit 7 t1) * (t1 OR 61))
     in (real (unat (t2 XOR drop_bit 14 t2)) / 4294967296, seed'))"

subsection \<open>Records and the distance test\<close>

record pothole =
  id' :: nat
  lat :: real
  lng :: real
  severity :: string
  status :: string
  color :: "string option"
  size' :: int
  detected :: int

text \<open>
  A position is the pair \<open>[lng, lat]\<close> that the code hands to \<open>turf.point\<close>.
  The parameter \<open>distance\<close> stands for \<open>turf.distance\<close> with
  \<open>{ units: 'kilometers' }\<close>.
\<close>

type_synonym position = "real \<times> real"

definition withinMeters ::
  "(position \<Rightarrow> position \<Rightarrow> real) \<Rightarrow> pothole \<Rightarrow> pothole \<Rightarrow> real \<Rightarrow> bool" where
  "withinMeters distance a b meters =
     (let dKm = distance (lng a, lat a) (lng b, lat b) in dKm * 1000 < meters)"

fun existsWithinMeters ::
  "(position \<Rightarrow> position \<Rightarrow> real) \<Rightarrow> pothole list \<Rightarrow> pothole \<Rightarrow> real \<Rightarrow> bool" where
  "existsWithinMeters distance [] candidate meters = False"
| "existsWithinMeters distance (p # ps) candidate meters =
     (if withinMeters distance p candidate meters then True
      else existsWithinMeters distance ps candidate meters)"

subsection \<open>buildInitialPotholes\<close>

definition targetCount :: nat where
  "targetCount = 80"

definition maxAttempts :: nat where
  "maxAttempts = targetCount * 50"

text \<open>
  \<open>new Date(v)\<close> keeps the integral part of \<open>v\<close> (rounded towards zero) as its time
  value, in milliseconds.
\<close>

definition timeClip :: "real \<Rightarrow> int" where
  "timeClip v = (if 0 \<le> v then \<lfloor>v\<rfloor> else \<lceil>v\<rceil>)"

text \<open>
  The body of the loop up to the test: the candidate of attempt number \<open>attempts\<close>
  (already incremented), drawn with six calls of \<open>rand\<close> in the order of the source
  (severity, status, size, detected, lat, lng). \<open>nowMs\<close> is what \<open>Date.now()\<close>
  returns in this iteration.
\<close>

definition candidate :: "int \<Rightarrow> int \<Rightarrow> nat \<Rightarrow> pothole \<times> int" where
  "candidate nowMs seed attempts =
    (let (r1, s1) = mulberry32 seed;
         severity = SEVERITIES ! nat \<lfloor>r1 * real (length SEVERITIES)\<rfloor>;
         (r2, s2) = mulberry32 s1;
         status = STATUSES ! nat \<lfloor>r2 * real (length STATUSES)\<rfloor>;
         (r3, s3) = mulberry32 s2;
         size = \<lfloor>r3 * 40\<rfloor> + 10;
         (r4, s4) = mulberry32 s3;
         detected = timeClip (real_of_int nowMs - r4 * 7 * 24 * 60 * 60 * 1000);
         (r5, s5) = mulberry32 s4;
         (r6, s6) = mulberry32 s5
     in (\<lparr> id' = attempts,
           lat = 43.6532 + (r5 - 0.5) * 0.15,
           lng = -79.3832 + (r6 - 0.5) * 0.2,
           severity = severity,
           status = status,
           color = severityColors severity,
           size' = size,
           detected = detected \<rparr>, s6))"

text \<open>
  The \<open>while\<close> loop. Its state is the generator's \<open>seed\<close>, the accepted \<open>items\<close>
  and the counter \<open>attempts\<close>; \<open>now k\<close> is the reading of \<open>Date.now()\<close> in attempt
  \<open>k\<close>. The loop returns the items and the number of attempts made.
\<close>

function build_loop ::
  "(position \<Rightarrow> position \<Rightarrow> real) \<Rightarrow> (nat \<Rightarrow> int) \<Rightarrow> int \<Rightarrow> pothole list \<Rightarrow> nat
     \<Rightarrow> pothole list \<times> nat" where
  "build_loop distance now seed items attempts =
    (if length items < targetCount \<and> attempts < maxAttempts then
       (case candidate (now (attempts + 1)) seed (attempts + 1) of
          (cand, seed') \<Rightarrow>
            build_loop distance now seed'
              (if \<not> existsWithinMeters distance items cand 10 then items @ [cand] else items)
              (attempts + 1))
     else (items, attempts))"
  by pat_completeness auto
termination
  by (relation "measure (\<lambda>(distance, now, seed, items, attempts). maxAttempts - attempts)") auto

text \<open>\<open>items.map((p, i) => ({ ...p, id: i }))\<close>\<close>

definition reindex :: "pothole list \<Rightarrow> pothole list" where
  "reindex items = map (\<lambda>(i, p). p\<lparr> id' := i \<rparr>) (enumerate 0 items)"

definition buildInitialPotholes ::
  "(position \<Rightarrow> position \<Rightarrow> real) \<Rightarrow> (nat \<Rightarrow> int) \<Rightarrow> pothole list" where
  "buildInitialPotholes distance now = reindex (fst (build_loop distance now 12345 [] 0))"

section \<open>Strings and names\<close>

text \<open>
  Free text (the search query, the names of the boundaries) is a list of UTF-16 code
  units, as a JavaScript string is. \<open>js\<close> reads an ASCII literal of the source.
\<close>

type_synonym jsstring = "nat list"

definition js :: "string \<Rightarrow> jsstring" where
  "js s = map of_char s"

text \<open>
  \<open>String.prototype.trim\<close> removes the white space and line terminators of
  ECMAScript from both ends.
\<close>

definition isWhiteSpace :: "nat \<Rightarrow> bool" where
  "isWhiteSpace c \<longleftrightarrow>
     c \<in> {0x9, 0xA, 0xB, 0xC, 0xD, 0x20, 0xA0, 0x1680, 0x2028, 0x2029, 0x202F, 0x205F,
          0x3000, 0xFEFF}
     \<or> (0x2000 \<le> c \<and> c \<le> 0x200A)"

definition trim :: "jsstring \<Rightarrow> jsstring" where
  "trim s = rev (dropWhile isWhiteSpace (rev (dropWhile isWhiteSpace s)))"

text \<open>
  \<open>normalize\<close>. The parameters \<open>toLowerCase\<close> and \<open>nfkd\<close> stand for
  \<open>String.prototype.toLowerCase\<close> and \<open>normalize('NFKD')\<close>, which read the Unicode
  tables of the runtime; the regular expression of the source removes the code units
  from 0x300 to 0x36f (the combining diacritical marks). The argument is always a
  string, so \<open>String(str || '')\<close> is \<open>str\<close>.
\<close>

definition normalize ::
  "(jsstring \<Rightarrow> jsstring) \<Rightarrow> (jsstring \<Rightarrow> jsstring) \<Rightarrow> jsstring \<Rightarrow> jsstring" where
  "normalize toLowerCase nfkd str =
     trim (filter (\<lambda>c. \<not> (0x300 \<le> c \<and> c \<le> 0x36f)) (nfkd (toLowerCase str)))"

text \<open>
  A feature of the boundary file: its \<open>properties\<close> (\<open>None\<close> when the member is
  missing or \<open>null\<close>; a property maps a key to a string value, and a missing or empty
  value is falsy), its \<open>id\<close> (\<open>None\<close> when missing or \<open>null\<close>) and its geometry,
  which only the libraries read.
\<close>

record 'g feature =
  properties :: "(string \<rightharpoonup> jsstring) option"
  fid :: "jsstring option"
  geometry :: 'g

definition nameKeys :: "string list" where
  "nameKeys = [''name'', ''Name'', ''NAME'', ''AREA_NAME'', ''AREA'', ''NEIGHBORHOOD'',
               ''NEIGHBOURHOOD'', ''HOOD'', ''NBRHD'', ''ward'', ''WARD'']"

fun firstTruthy :: "(string \<rightharpoonup> jsstring) \<Rightarrow> string list \<Rightarrow> jsstring option" where
  "firstTruthy props [] = None"
| "firstTruthy props (k # ks) =
     (case props k of
        Some v \<Rightarrow> if v \<noteq> [] then Some v else firstTruthy props ks
      | None \<Rightarrow> firstTruthy props ks)"

definition featureName :: "'g feature \<Rightarrow> jsstring" where
  "featureName f =
     (let props = (case properties f of Some ps \<Rightarrow> ps | None \<Rightarrow> Map.empty) in
      case firstTruthy props nameKeys of
        Some v \<Rightarrow> v
      | None \<Rightarrow> trim (js ''Area '' @ (case fid f of Some i \<Rightarrow> i | None \<Rightarrow> [])))"

section \<open>The boundary collection\<close>

text \<open>
  What \<open>useNeighborhoods\<close> holds is \<open>None\<close> (\<open>null\<close>: not loaded, or the load
  failed) or a GeoJSON object: a feature collection with its \<open>features\<close>, or any
  other object, which has no \<open>features\<close>.
\<close>

datatype 'g geojson = FeatureCollection "'g feature list" | OtherGeoJSON "'g feature"

text \<open>An exception of JavaScript, as a value.\<close>

datatype exn = TypeError | TurfError

text \<open>
  \<open>features.some((f) => turf.booleanPointInPolygon(pt, f))\<close>: the parameter \<open>pip\<close>
  stands for \<open>turf.booleanPointInPolygon\<close>, which returns a boolean or throws.
\<close>

fun somePolygon ::
  "(position \<Rightarrow> 'g feature \<Rightarrow> exn + bool) \<Rightarrow> position \<Rightarrow> 'g feature list \<Rightarrow> exn + bool" where
  "somePolygon pip pt [] = Inr False"
| "somePolygon pip pt (f # fs) =
     (case pip pt f of
        Inl e \<Rightarrow> Inl e
      | Inr True \<Rightarrow> Inr True
      | Inr False \<Rightarrow> somePolygon pip pt fs)"

definition pointOnAnyPolygon ::
  "(position \<Rightarrow> 'g feature \<Rightarrow> exn + bool) \<Rightarrow> real \<Rightarrow> real \<Rightarrow> 'g geojson option \<Rightarrow> exn + bool" where
  "pointOnAnyPolygon pip lat' lng' fc =
     (case fc of
        None \<Rightarrow> Inr True
      | Some (FeatureCollection features) \<Rightarrow> somePolygon pip (lng', lat') features
      | Some (OtherGeoJSON g) \<Rightarrow> pip (lng', lat') g)"

text \<open>\<open>neighborhoodIndex\<close>: the pairs of \<open>idx\<close> and normalized name.\<close>

definition neighborhoodIndex ::
  "(jsstring \<Rightarrow> jsstring) \<Rightarrow> (jsstring \<Rightarrow> jsstring) \<Rightarrow> 'g geojson option \<Rightarrow> (nat \<times> jsstring) list" where
  "neighborhoodIndex toLowerCase nfkd fc =
     (case fc of
        Some (FeatureCollection features) \<Rightarrow>
          map (\<lambda>(idx, f). (idx, normalize toLowerCase nfkd (featureName f))) (enumerate 0 features)
      | _ \<Rightarrow> [])"

section \<open>The filter\<close>

text \<open>
  The filter criteria. The applied criteria (\<open>selectedFilters\<close>) hold arrays and the
  draft (\<open>inputs\<close>) holds \<open>Set\<close>s of strings; a \<open>Set\<close> of strings is the list of its
  elements in insertion order, which is what \<open>Array.from\<close> returns.
\<close>

record criteria =
  dateRange :: string
  severities :: "string list"
  statuses :: "string list"
  sizeMin :: string
  sizeMax :: string

text \<open>
  \<open>dateInRange\<close> compares the detection time with instants that it computes from
  \<open>new Date()\<close> in the local time zone; they are given as a \<open>calendar\<close>: local
  midnight of today, now with the day of the month moved back by 7 and by 30, and
  local midnight of 1 January.
\<close>

record calendar =
  startOfToday :: int
  daysAgo7 :: int
  daysAgo30 :: int
  startOfYear :: int

definition dateInRange :: "calendar \<Rightarrow> int \<Rightarrow> string \<Rightarrow> bool" where
  "dateInRange cal d rangeKey =
     (if rangeKey = ''all'' then True
      else if rangeKey = ''today'' then startOfToday cal \<le> d
      else if rangeKey = ''last7'' then daysAgo7 cal \<le> d
      else if rangeKey = ''last30'' then daysAgo30 cal \<le> d
      else if rangeKey = ''thisYear'' then startOfYear cal \<le> d
      else True)"

text \<open>
  \<open>activeNeighborhoods\<close>: \<open>null\<close> is \<open>None\<close>; reading \<open>features\<close> of an object that
  has none and calling \<open>filter\<close> on it throws a \<open>TypeError\<close>.
\<close>

definition activeNeighborhoods ::
  "'g geojson option \<Rightarrow> nat set \<Rightarrow> exn + 'g feature list option" where
  "activeNeighborhoods fc selectedIds =
     (case fc of
        None \<Rightarrow> Inr None
      | Some g \<Rightarrow>
          if selectedIds \<noteq> {} then
            (case g of
               FeatureCollection features \<Rightarrow>
                 Inr (Some (map snd (filter (\<lambda>(idx, f). idx \<in> selectedIds) (enumerate 0 features))))
             | OtherGeoJSON _ \<Rightarrow> Inl TypeError)
          else Inr None)"

text \<open>
  The comparisons of a size with \<open>Number(sizeMin)\<close> and \<open>Number(sizeMax)\<close>; the
  parameter \<open>toNumber\<close> stands for \<open>Number\<close> on strings, with \<open>None\<close> for \<open>NaN\<close>,
  and a comparison with \<open>NaN\<close> is false.
\<close>

definition lessThanNumber :: "int \<Rightarrow> real option \<Rightarrow> bool" where
  "lessThanNumber x n = (case n of None \<Rightarrow> False | Some v \<Rightarrow> real_of_int x < v)"

definition greaterThanNumber :: "int \<Rightarrow> real option \<Rightarrow> bool" where
  "greaterThanNumber x n = (case n of None \<Rightarrow> False | Some v \<Rightarrow> v < real_of_int x)"

text \<open>The callback of \<open>potholes.filter\<close>, from the test of the date on.\<close>

definition attributesPass :: "(string \<Rightarrow> real option) \<Rightarrow> calendar \<Rightarrow> criteria \<Rightarrow> pothole \<Rightarrow> bool" where
  "attributesPass toNumber cal selectedFilters p =
     (if \<not> dateInRange cal (detected p) (dateRange selectedFilters) then False
      else if severities selectedFilters \<noteq> [] \<and> severity p \<notin> set (severities selectedFilters)
        then False
      else if statuses selectedFilters \<noteq> [] \<and> status p \<notin> set (statuses selectedFilters)
        then False
      else
        let min' = toNumber (sizeMin selectedFilters);
            max' = toNumber (sizeMax selectedFilters)
        in if sizeMin selectedFilters \<noteq> [] \<and> lessThanNumber (size' p) min' then False
           else if sizeMax selectedFilters \<noteq> [] \<and> greaterThanNumber (size' p) max' then False
           else True)"

text \<open>The whole callback: \<open>Inr\<close> of what it returns, or \<open>Inl\<close> of what it throws.\<close>

definition keep ::
  "(position \<Rightarrow> 'g feature \<Rightarrow> exn + bool) \<Rightarrow> (string \<Rightarrow> real option) \<Rightarrow> calendar \<Rightarrow>
   'g geojson option \<Rightarrow> 'g feature list option \<Rightarrow> criteria \<Rightarrow> pothole \<Rightarrow> exn + bool" where
  "keep pip toNumber cal fc active selectedFilters p =
     (case pointOnAnyPolygon pip (lat p) (lng p) fc of
        Inl e \<Rightarrow> Inl e
      | Inr False \<Rightarrow> Inr False
      | Inr True \<Rightarrow>
          (case (case active of
                   None \<Rightarrow> Inr True
                 | Some fs \<Rightarrow> somePolygon pip (lng p, lat p) fs) of
             Inl e \<Rightarrow> Inl e
           | Inr False \<Rightarrow> Inr False
           | Inr True \<Rightarrow> Inr (attributesPass toNumber cal selectedFilters p)))"

text \<open>
  \<open>Array.prototype.filter\<close> with a callback that may throw; \<open>i\<close> is the index of the
  first record of the list in the array.
\<close>

fun filterFrom :: "(nat \<Rightarrow> pothole \<Rightarrow> exn + bool) \<Rightarrow> nat \<Rightarrow> pothole list \<Rightarrow> exn + pothole list" where
  "filterFrom callback i [] = Inr []"
| "filterFrom callback i (p # ps) =
     (case callback i p of
        Inl e \<Rightarrow> Inl e
      | Inr b \<Rightarrow>
          (case filterFrom callback (i + 1) ps of
             Inl e \<Rightarrow> Inl e
           | Inr rest \<Rightarrow> Inr (if b then p # rest else rest)))"

text \<open>
  \<open>filteredPotholes\<close>; \<open>cal i\<close> is the calendar at the moment the callback runs on
  record \<open>i\<close>.
\<close>

definition filteredPotholes ::
  "(position \<Rightarrow> 'g feature \<Rightarrow> exn + bool) \<Rightarrow> (string \<Rightarrow> real option) \<Rightarrow> (nat \<Rightarrow> calendar) \<Rightarrow>
   pothole list \<Rightarrow> criteria \<Rightarrow> 'g geojson option \<Rightarrow> nat set \<Rightarrow> exn + pothole list" where
  "filteredPotholes pip toNumber cal potholes selectedFilters fc selectedIds =
     (case activeNeighborhoods fc selectedIds of
        Inl e \<Rightarrow> Inl e
      | Inr active \<Rightarrow>
          filterFrom (\<lambda>i p. keep pip toNumber (cal i) fc active selectedFilters p) 0 potholes)"

section \<open>The state of the component and its handlers\<close>

text \<open>
  The state variables of \<open>PotholeMappingPlatform\<close>. \<open>mapReady\<close> says that \<open>map\<close> is
  not \<open>null\<close>. A \<open>Set\<close> of indices is a set of naturals. The last three fields record
  the effects of the handlers: the calls of \<open>map.fitBounds\<close> and \<open>map.flyTo\<close>, the
  queries sent to the geocoding service with \<open>fetch\<close>, and the number of calls of
  \<open>console.error\<close> in \<open>handleSearch\<close>.
\<close>

datatype view_command = FitBounds nat | FlyTo real real nat

record 'g app_state =
  activeTab :: string
  mapReady :: bool
  searchQuery :: jsstring
  selectedNeighborhoodIds :: "nat set"
  selectedFilters :: criteria
  inputs :: criteria
  potholes :: "pothole list"
  neighborhoodsFC :: "'g geojson option"
  viewCommands :: "view_command list"
  geocodeRequests :: "jsstring list"
  errorsLogged :: nat

definition initialState :: "pothole list \<Rightarrow> 'g app_state" where
  "initialState generated =
     \<lparr> activeTab = ''summary'',
       mapReady = False,
       searchQuery = [],
       selectedNeighborhoodIds = {},
       selectedFilters =
         \<lparr> dateRange = ''all'', severities = [], statuses = [], sizeMin = [], sizeMax = [] \<rparr>,
       inputs =
         \<lparr> dateRange = ''all'', severities = [], statuses = [], sizeMin = [], sizeMax = [] \<rparr>,
       potholes = generated,
       neighborhoodsFC = None,
       viewCommands = [],
       geocodeRequests = [],
       errorsLogged = 0 \<rparr>"

definition toggleSetValue :: "string list \<Rightarrow> string \<Rightarrow> string list" where
  "toggleSetValue set' v = (if v \<in> set set' then removeAll v set' else set' @ [v])"

definition applyFilters :: "'g app_state \<Rightarrow> 'g app_state" where
  "applyFilters s =
     s\<lparr> selectedFilters :=
          \<lparr> dateRange = dateRange (inputs s),
            severities = severities (inputs s),
            statuses = statuses (inputs s),
            sizeMin = sizeMin (inputs s),
            sizeMax = sizeMax (inputs s) \<rparr> \<rparr>"

definition clearFilters :: "'g app_state \<Rightarrow> 'g app_state" where
  "clearFilters s =
     s\<lparr> inputs :=
          \<lparr> dateRange = ''today'', severities = [], statuses = [], sizeMin = [], sizeMax = [] \<rparr>,
        selectedFilters :=
          \<lparr> dateRange = ''today'', severities = [], statuses = [], sizeMin = [], sizeMax = [] \<rparr>,
        selectedNeighborhoodIds := {} \<rparr>"

text \<open>
  The updater that both the click on a boundary of the map (\<open>onEachNeighborhood\<close>) and
  the checkbox of the filter tab hand to \<open>setSelectedNeighborhoodIds\<close>.
\<close>

definition selectOnly :: "nat set \<Rightarrow> nat \<Rightarrow> nat set" where
  "selectOnly prev idx =
     (let alreadyOnlyThis = (card prev = 1 \<and> idx \<in> prev) in
      if alreadyOnlyThis then {} else {idx})"

definition clickNeighborhood :: "nat \<Rightarrow> 'g app_state \<Rightarrow> 'g app_state" where
  "clickNeighborhood idx s =
     s\<lparr> selectedNeighborhoodIds := selectOnly (selectedNeighborhoodIds s) idx \<rparr>"

definition checkNeighborhood :: "nat \<Rightarrow> 'g app_state \<Rightarrow> 'g app_state" where
  "checkNeighborhood idx s =
     s\<lparr> selectedNeighborhoodIds := selectOnly (selectedNeighborhoodIds s) idx \<rparr>"

subsection \<open>handleSearch\<close>

text \<open>\<open>name.includes(q)\<close>: \<open>q\<close> occurs in \<open>name\<close> as a substring.\<close>

fun includes' :: "jsstring \<Rightarrow> jsstring \<Rightarrow> bool" where
  "includes' [] q = (q = [])"
| "includes' (c # cs) q = (prefix q (c # cs) \<or> includes' cs q)"

text \<open>
  The \<open>try\<close> block after a match: the parameter \<open>boundsValid\<close> stands for
  \<open>L.geoJSON(feature).getBounds().isValid()\<close>, which may throw; the exception is
  swallowed. The index comes from \<open>neighborhoodIndex\<close>, so it is in range.
\<close>

definition fitNeighborhood ::
  "('g feature \<Rightarrow> exn + bool) \<Rightarrow> nat \<Rightarrow> 'g app_state \<Rightarrow> 'g app_state" where
  "fitNeighborhood boundsValid idx s =
     (case neighborhoodsFC s of
        Some (FeatureCollection features) \<Rightarrow>
          if idx < length features then
            (case boundsValid (features ! idx) of
               Inr True \<Rightarrow>
                 if mapReady s then s\<lparr> viewCommands := viewCommands s @ [FitBounds idx] \<rparr> else s
             | _ \<Rightarrow> s)
          else s
      | _ \<Rightarrow> s)"

text \<open>
  \<open>handleSearch\<close> up to the fallback: \<open>Some\<close> of the new state when the handler returns
  in the guard of the empty query or in step 1 or 2, and \<open>None\<close> when it goes on to
  step 3.
\<close>

definition searchNeighborhoods ::
  "(jsstring \<Rightarrow> jsstring) \<Rightarrow> (jsstring \<Rightarrow> jsstring) \<Rightarrow> ('g feature \<Rightarrow> exn + bool) \<Rightarrow>
   'g app_state \<Rightarrow> 'g app_state option" where
  "searchNeighborhoods toLowerCase nfkd boundsValid s =
     (let q = normalize toLowerCase nfkd (searchQuery s);
          index = neighborhoodIndex toLowerCase nfkd (neighborhoodsFC s)
      in if q = [] then Some s
         else
           case (if index \<noteq> [] then find (\<lambda>(idx, name). name = q) index else None) of
             Some (idx, name) \<Rightarrow>
               Some (fitNeighborhood boundsValid idx (s\<lparr> selectedNeighborhoodIds := {idx} \<rparr>))
           | None \<Rightarrow>
               (case (if index \<noteq> [] then find (\<lambda>(idx, name). includes' name q) index else None) of
                  Some (idx, name) \<Rightarrow>
                    Some (fitNeighborhood boundsValid idx (s\<lparr> selectedNeighborhoodIds := {idx} \<rparr>))
                | None \<Rightarrow> None))"

text \<open>
  What the geocoding service answers: the \<open>fetch\<close> is rejected, or there is a response
  with its \<open>ok\<close> flag and its body, \<open>None\<close> when the body is not JSON. A body is an array
  of entries or something else; an entry is \<open>null\<close> or has members \<open>lat\<close> and \<open>lon\<close>,
  given as the strings that \<open>parseFloat\<close> reads.
\<close>

datatype geocode_entry = NullEntry | Entry string string

datatype geocode_body = NotAnArray | Results "geocode_entry list"

datatype geocode_response = FetchRejected | Response bool "geocode_body option"

text \<open>The \<open>catch\<close> block.\<close>

definition logGeocodeFailure :: "'g app_state \<Rightarrow> 'g app_state" where
  "logGeocodeFailure s = s\<lparr> errorsLogged := errorsLogged s + 1 \<rparr>"

text \<open>
  Step 3 after the \<open>await\<close>s: \<open>mapAtSubmit\<close> is the \<open>map\<close> that the handler captured when
  it was called, \<open>s\<close> the state when the answer arrives. The parameter \<open>parseFloat\<close>
  stands for the function of the runtime, with \<open>None\<close> for \<open>NaN\<close>.
\<close>

definition settleGeocode ::
  "(string \<Rightarrow> real option) \<Rightarrow> bool \<Rightarrow> geocode_response \<Rightarrow> 'g app_state \<Rightarrow> 'g app_state" where
  "settleGeocode parseFloat mapAtSubmit response s =
     (case response of
        FetchRejected \<Rightarrow> logGeocodeFailure s
      | Response ok body \<Rightarrow>
          if \<not> ok then logGeocodeFailure s
          else
            (case body of
               None \<Rightarrow> logGeocodeFailure s
             | Some NotAnArray \<Rightarrow> s
             | Some (Results []) \<Rightarrow> s
             | Some (Results (NullEntry # _)) \<Rightarrow> logGeocodeFailure s
             | Some (Results (Entry latText lonText # _)) \<Rightarrow>
                 (case (parseFloat latText, parseFloat lonText) of
                    (Some lat', Some lon') \<Rightarrow>
                      if mapAtSubmit then
                        s\<lparr> selectedNeighborhoodIds := {},
                           viewCommands := viewCommands s @ [FlyTo lat' lon' 13] \<rparr>
                      else s
                  | _ \<Rightarrow> s)))"

text \<open>The call of \<open>fetch\<close> in step 3, with the raw query.\<close>

definition sendGeocode :: "'g app_state \<Rightarrow> 'g app_state" where
  "sendGeocode s = s\<lparr> geocodeRequests := geocodeRequests s @ [searchQuery s] \<rparr>"

text \<open>
  The URL of the request is built with \<open>encodeURIComponent(searchQuery)\<close>, which
  throws a \<open>URIError\<close> inside the \<open>try\<close> block unless the string is well formed:
  every code unit from 0xD800 to 0xDBFF is followed by one from 0xDC00 to 0xDFFF, and
  the latter occur nowhere else.
\<close>

definition isHighSurrogate :: "nat \<Rightarrow> bool" where
  "isHighSurrogate c \<longleftrightarrow> 0xD800 \<le> c \<and> c \<le> 0xDBFF"

definition isLowSurrogate :: "nat \<Rightarrow> bool" where
  "isLowSurrogate c \<longleftrightarrow> 0xDC00 \<le> c \<and> c \<le> 0xDFFF"

fun isWellFormed :: "jsstring \<Rightarrow> bool" where
  "isWellFormed [] = True"
| "isWellFormed [c] = (\<not> isHighSurrogate c \<and> \<not> isLowSurrogate c)"
| "isWellFormed (c # d # cs) =
     (if isHighSurrogate c then isLowSurrogate d \<and> isWellFormed cs
      else \<not> isLowSurrogate c \<and> isWellFormed (d # cs))"

text \<open>
  Step 3 (the \<open>try\<close> block) when nothing happens between the request and its answer;
  the parameter \<open>geocode\<close> is the answer of the service to a query.
\<close>

definition geocodeFallback ::
  "(string \<Rightarrow> real option) \<Rightarrow> (jsstring \<Rightarrow> geocode_response) \<Rightarrow> 'g app_state \<Rightarrow> 'g app_state" where
  "geocodeFallback parseFloat geocode s =
     (if isWellFormed (searchQuery s) then
        settleGeocode parseFloat (mapReady s) (geocode (searchQuery s)) (sendGeocode s)
      else logGeocodeFailure s)"

text \<open>\<open>handleSearch\<close>, with the same parameters.\<close>

definition handleSearch ::
  "(jsstring \<Rightarrow> jsstring) \<Rightarrow> (jsstring \<Rightarrow> jsstring) \<Rightarrow> ('g feature \<Rightarrow> exn + bool) \<Rightarrow>
   (string \<Rightarrow> real option) \<Rightarrow> (jsstring \<Rightarrow> geocode_response) \<Rightarrow> 'g app_state \<Rightarrow> 'g app_state" where
  "handleSearch toLowerCase nfkd boundsValid parseFloat geocode s =
     (case searchNeighborhoods toLowerCase nfkd boundsValid s of
        Some s' \<Rightarrow> s'
      | None \<Rightarrow> geocodeFallback parseFloat geocode s)"

subsection \<open>Events\<close>

text \<open>
  Everything that writes the state: the user's actions, the two loads, and the answer
  of the geocoding service, which may arrive after other events; it carries the \<open>map\<close>
  that its handler captured. \<open>SubmitSearch\<close> is \<open>handleSearch\<close> up to the request.
\<close>

datatype 'g event =
    SetActiveTab string
  | MapCreated
  | NeighborhoodsLoaded "'g geojson option"
  | SetSearchQuery jsstring
  | ClickNeighborhood nat
  | CheckNeighborhood nat
  | SetDateRange string
  | ToggleSeverity string
  | ToggleStatus string
  | SetSizeMin string
  | SetSizeMax string
  | ApplyFilters
  | ClearFilters
  | SubmitSearch
  | GeocodeSettled bool geocode_response

fun step ::
  "(jsstring \<Rightarrow> jsstring) \<Rightarrow> (jsstring \<Rightarrow> jsstring) \<Rightarrow> ('g feature \<Rightarrow> exn + bool) \<Rightarrow>
   (string \<Rightarrow> real option) \<Rightarrow> 'g event \<Rightarrow> 'g app_state \<Rightarrow> 'g app_state" where
  "step lc nf bv pf (SetActiveTab tab) s = s\<lparr> activeTab := tab \<rparr>"
| "step lc nf bv pf MapCreated s = s\<lparr> mapReady := True \<rparr>"
| "step lc nf bv pf (NeighborhoodsLoaded fc) s = s\<lparr> neighborhoodsFC := fc \<rparr>"
| "step lc nf bv pf (SetSearchQuery q) s = s\<lparr> searchQuery := q \<rparr>"
| "step lc nf bv pf (ClickNeighborhood idx) s = clickNeighborhood idx s"
| "step lc nf bv pf (CheckNeighborhood idx) s = checkNeighborhood idx s"
| "step lc nf bv pf (SetDateRange v) s = s\<lparr> inputs := (inputs s)\<lparr> dateRange := v \<rparr> \<rparr>"
| "step lc nf bv pf (ToggleSeverity sev) s =
     s\<lparr> inputs := (inputs s)\<lparr> severities := toggleSetValue (severities (inputs s)) sev \<rparr> \<rparr>"
| "step lc nf bv pf (ToggleStatus st) s =
     s\<lparr> inputs := (inputs s)\<lparr> statuses := toggleSetValue (statuses (inputs s)) st \<rparr> \<rparr>"
| "step lc nf bv pf (SetSizeMin v) s = s\<lparr> inputs := (inputs s)\<lparr> sizeMin := v \<rparr> \<rparr>"
| "step lc nf bv pf (SetSizeMax v) s = s\<lparr> inputs := (inputs s)\<lparr> sizeMax := v \<rparr> \<rparr>"
| "step lc nf bv pf ApplyFilters s = applyFilters s"
| "step lc nf bv pf ClearFilters s = clearFilters s"
| "step lc nf bv pf SubmitSearch s =
     (case searchNeighborhoods lc nf bv s of
        Some s' \<Rightarrow> s'
      | None \<Rightarrow> if isWellFormed (searchQuery s) then sendGeocode s else logGeocodeFailure s)"
| "step lc nf bv pf (GeocodeSettled mapAtSubmit response) s =
     settleGeocode pf mapAtSubmit response s"

text \<open>The states that a sequence of events reaches from the initial state.\<close>

inductive reachable ::
  "(jsstring \<Rightarrow> jsstring) \<Rightarrow> (jsstring \<Rightarrow> jsstring) \<Rightarrow> ('g feature \<Rightarrow> exn + bool) \<Rightarrow>
   (string \<Rightarrow> real option) \<Rightarrow> pothole list \<Rightarrow> 'g app_state \<Rightarrow> bool"
  for lc nf bv pf generated where
    initial: "reachable lc nf bv pf generated (initialState generated)"
  | after: "reachable lc nf bv pf generated s \<Longrightarrow> reachable lc nf bv pf generated (step lc nf bv pf e s)"


text \<open>The record set that is rendered in a state.\<close>

definition rendered ::
  "(position \<Rightarrow> 'g feature \<Rightarrow> exn + bool) \<Rightarrow> (string \<Rightarrow> real option) \<Rightarrow> (nat \<Rightarrow> calendar) \<Rightarrow>
   'g app_state \<Rightarrow> exn + pothole list" where
  "rendered pip toNumber cal s =
     filteredPotholes pip toNumber cal (potholes s) (selectedFilters s) (neighborhoodsFC s)
       (selectedNeighborhoodIds s)"

section \<open>Notions used to state the properties\<close>

text \<open>The update of \<open>items\<close> in one iteration of the loop.\<close>

definition accept :: "(position \<Rightarrow> position \<Rightarrow> real) \<Rightarrow> pothole list \<Rightarrow> pothole \<Rightarrow> pothole list" where
  "accept d items cand = (if \<not> existsWithinMeters d items cand 10 then items @ [cand] else items)"

text \<open>No record is within 10 metres of a record before it in the list.\<close>

definition separated :: "(position \<Rightarrow> position \<Rightarrow> real) \<Rightarrow> pothole list \<Rightarrow> bool" where
  "separated d ps = (\<forall>j < length ps. \<forall>i < j. \<not> withinMeters d (ps ! i) (ps ! j) 10)"

text \<open>A record without its detection timestamp.\<close>

definition undated :: "pothole \<Rightarrow> pothole" where
  "undated p = p\<lparr> detected := 0 \<rparr>"

text \<open>A selection with at most one boundary.\<close>

definition atMostOne :: "nat set \<Rightarrow> bool" where
  "atMostOne A \<longleftrightarrow> A = {} \<or> (\<exists>i. A = {i})"

text \<open>
  The normalized names of the boundaries in index order: position \<open>k\<close> of the list is
  the name of the entry of \<open>neighborhoodIndex\<close> with \<open>idx = k\<close>.
\<close>

definition boundaryNames ::
  "(jsstring \<Rightarrow> jsstring) \<Rightarrow> (jsstring \<Rightarrow> jsstring) \<Rightarrow> 'g geojson option \<Rightarrow> jsstring list" where
  "boundaryNames lc nf fc =
     (case fc of
        Some (FeatureCollection features) \<Rightarrow> map (\<lambda>f. normalize lc nf (featureName f)) features
      | _ \<Rightarrow> [])"

text \<open>
  The answers of the geocoding service that end in the \<open>catch\<close> block: a rejected
  \<open>fetch\<close> (network failure), a response that is not \<open>ok\<close> (HTTP failure), a body that
  is not JSON (parse failure), and an array whose first entry is \<open>null\<close>.
\<close>

fun responseFailed :: "geocode_response \<Rightarrow> bool" where
  "responseFailed FetchRejected = True"
| "responseFailed (Response ok body) =
     (\<not> ok \<or> (case body of
                 None \<Rightarrow> True
               | Some (Results (NullEntry # rest)) \<Rightarrow> True
               | _ \<Rightarrow> False))"



subsection \<open>Concrete inputs for the examples\<close>

text \<open>
  Two stand-ins for \<open>turf.distance\<close>, used only where a property is evaluated at a
  concrete input: a crude estimate in kilometres of the distance of two positions
  given in degrees, and a degenerate one under which every two positions coincide.
  Two clocks: two page loads one minute apart, and a clock that differs from the
  first one only at an index the generator never reads.
\<close>

definition taxicab_km :: "position \<Rightarrow> position \<Rightarrow> real" where
  "taxicab_km a b = 111 * (\<bar>fst a - fst b\<bar> + \<bar>snd a - snd b\<bar>)"


definition clock_A :: "nat \<Rightarrow> int" where
  "clock_A k = 1700000000000"

definition clock_B :: "nat \<Rightarrow> int" where
  "clock_B k = 1700000060000"

definition clock_A0 :: "nat \<Rightarrow> int" where
  "clock_A0 k = (if k = 0 then 0 else 1700000000000)"


text \<open>
  The first two records that the generator returns for \<open>taxicab_km\<close> and \<open>clock_A\<close>.
\<close>

definition record_1 :: pothole where
  "record_1 =
     \<lparr> id' = 0, lat = 234368925683059 / 5368709120000,
       lng = - (213174542828767 / 2684354560000), severity = ''low'', status = ''pending'',
       color = Some ''#84cc16'', size' = 29, detected = 1699505313267 \<rparr>"

definition record_2 :: pothole where
  "record_2 =
     \<lparr> id' = 1, lat = 58582267063921 / 1342177280000,
       lng = - (106426647066321 / 1342177280000), severity = ''critical'', status = ''repaired'',
       color = Some ''#dc2626'', size' = 49, detected = 1699501026401 \<rparr>"

text \<open>
  Stand-ins for the functions of the runtime, right on the strings of the examples:
  \<open>toLowerCase\<close> and NFKD on ASCII strings, and \<open>parseFloat\<close> and \<open>Number\<close> as tables.
\<close>

definition asciiLower :: "jsstring \<Rightarrow> jsstring" where
  "asciiLower s = map (\<lambda>c. if 65 \<le> c \<and> c \<le> 90 then c + 32 else c) s"

definition asciiNfkd :: "jsstring \<Rightarrow> jsstring" where
  "asciiNfkd s = s"

definition parseFloatTable :: "string \<Rightarrow> real option" where
  "parseFloatTable s =
     (if s = ''43.65'' then Some 43.65 else if s = ''-79.38'' then Some (-79.38) else None)"

definition numberTable :: "string \<Rightarrow> real option" where
  "numberTable s = (if s = [] then Some 0 else if s = ''20'' then Some 20 else None)"

text \<open>
  A boundary file with two boundaries whose geometries are boxes (south-west and
  north-east corner, as positions), with stand-ins for the two geometry libraries:
  \<open>record_1\<close> lies in the first box only and \<open>record_2\<close> in the second only.
\<close>

type_synonym box = "position \<times> position"

definition boxContains :: "position \<Rightarrow> box feature \<Rightarrow> exn + bool" where
  "boxContains pt f =
     Inr (fst (fst (geometry f)) \<le> fst pt \<and> fst pt \<le> fst (snd (geometry f))
        \<and> snd (fst (geometry f)) \<le> snd pt \<and> snd pt \<le> snd (snd (geometry f)))"

definition validBounds :: "box feature \<Rightarrow> exn + bool" where
  "validBounds f = Inr True"

definition kensington :: "box feature" where
  "kensington =
     \<lparr> properties = Some [''AREA_NAME'' \<mapsto> js ''Kensington Market''], fid = None,
       geometry = ((-79.45, 43.62), (-79.38, 43.70)) \<rparr>"

definition eastEnd :: "box feature" where
  "eastEnd =
     \<lparr> properties = Some [''name'' \<mapsto> js ''East End''], fid = None,
       geometry = ((-79.35, 43.60), (-79.25, 43.70)) \<rparr>"

definition twoBoundaries :: "box geojson option" where
  "twoBoundaries = Some (FeatureCollection [kensington, eastEnd])"

text \<open>
  The calendar of the instant 1700000000000 (14 November 2023, 17:13:20 in Toronto),
  the criteria of the initial state, and two geocoding services: one that finds a
  coordinate and one that cannot be reached.
\<close>

definition calendars0 :: "nat \<Rightarrow> calendar" where
  "calendars0 i =
     \<lparr> startOfToday = 1699938000000, daysAgo7 = 1699395200000, daysAgo30 = 1697404400000,
       startOfYear = 1672549200000 \<rparr>"

definition noCriteria :: criteria where
  "noCriteria =
     \<lparr> dateRange = ''all'', severities = [], statuses = [], sizeMin = [], sizeMax = [] \<rparr>"

definition geocodeFound :: "jsstring \<Rightarrow> geocode_response" where
  "geocodeFound q = Response True (Some (Results [Entry ''43.65'' ''-79.38'']))"

definition geocodeDown :: "jsstring \<Rightarrow> geocode_response" where
  "geocodeDown q = FetchRejected"

text \<open>
  The state after a list of events, and the state in which a query has been typed
  after the boundaries were loaded and the second one was clicked; the map has not
  been created.
\<close>

definition run :: "box event list \<Rightarrow> box app_state" where
  "run es =
     foldl (\<lambda>s e. step asciiLower asciiNfkd validBounds parseFloatTable e s)
       (initialState [record_1, record_2]) es"

definition searching :: "jsstring \<Rightarrow> box app_state" where
  "searching q = run [NeighborhoodsLoaded twoBoundaries, ClickNeighborhood 1, SetSearchQuery q]"

section \<open>The generator: lemmas\<close>

declare build_loop.simps [simp del]

lemma length_reindex: "length (reindex items) = length items"
  by (simp add: reindex_def)

lemma snd_mulberry32: "snd (mulberry32 seed) = seed + 1831565813"
  by (simp add: mulberry32_def Let_def)

lemma snd_candidate: "snd (candidate nowMs seed k) = seed + 6 * 1831565813"
  by (simp add: candidate_def Let_def split_def snd_mulberry32)

lemma seed_is_exact: "12345 + 24000 * (0x6d2b79f5 :: int) < 2 ^ 53"
  by simp

lemma existsWithinMeters_iff:
  "existsWithinMeters d ps c m \<longleftrightarrow> (\<exists>p \<in> set ps. withinMeters d p c m)"
  by (induction ps) auto

lemma build_loop_step:
  assumes "length items < targetCount" "attempts < maxAttempts"
  shows "build_loop d now seed items attempts =
         build_loop d now (snd (candidate (now (attempts + 1)) seed (attempts + 1)))
           (accept d items (fst (candidate (now (attempts + 1)) seed (attempts + 1))))
           (attempts + 1)"
  using assms by (subst build_loop.simps) (simp add: split_def accept_def)

lemma build_loop_stop:
  assumes "\<not> (length items < targetCount \<and> attempts < maxAttempts)"
  shows "build_loop d now seed items attempts = (items, attempts)"
  using assms by (subst build_loop.simps) auto

lemma build_loop_induct2 [case_names step]:
  assumes "\<And>d now seed items attempts.
     (length items < targetCount \<Longrightarrow> attempts < maxAttempts \<Longrightarrow>
        P d now (snd (candidate (now (attempts + 1)) seed (attempts + 1)))
          (accept d items (fst (candidate (now (attempts + 1)) seed (attempts + 1))))
          (attempts + 1))
     \<Longrightarrow> P d now seed items attempts"
  shows "P d now seed items attempts"
proof (induction d now seed items attempts rule: build_loop.induct)
  case (1 d now seed items attempts)
  show ?case
  proof (rule assms)
    assume a: "length items < targetCount" "attempts < maxAttempts"
    obtain cand seed' where c: "candidate (now (attempts + 1)) seed (attempts + 1) = (cand, seed')"
      by (cases "candidate (now (attempts + 1)) seed (attempts + 1)")
    have "P d now seed' (if \<not> existsWithinMeters d items cand 10 then items @ [cand] else items)
            (attempts + 1)"
      using a by (intro "1.IH" [OF _ c [symmetric]]) simp
    then show "P d now (snd (candidate (now (attempts + 1)) seed (attempts + 1)))
          (accept d items (fst (candidate (now (attempts + 1)) seed (attempts + 1))))
          (attempts + 1)"
      by (simp only: c fst_conv snd_conv accept_def)
  qed
qed


lemma build_loop_invariant:
  assumes init: "I items attempts"
    and step: "\<And>items attempts cand. I items attempts \<Longrightarrow> length items < targetCount \<Longrightarrow>
                 attempts < maxAttempts \<Longrightarrow> I (accept d items cand) (attempts + 1)"
  shows "I (fst (build_loop d now seed items attempts)) (snd (build_loop d now seed items attempts))
         \<and> \<not> (length (fst (build_loop d now seed items attempts)) < targetCount
              \<and> snd (build_loop d now seed items attempts) < maxAttempts)"
  using assms
proof (induction d now seed items attempts rule: build_loop_induct2)
  case (step d now seed items attempts)
  show ?case
  proof (cases "length items < targetCount \<and> attempts < maxAttempts")
    case True
    then have a: "length items < targetCount" "attempts < maxAttempts" by simp_all
    have "I (accept d items (fst (candidate (now (attempts + 1)) seed (attempts + 1)))) (attempts + 1)"
      by (rule step.prems(2) [OF step.prems(1) a])
    from step.IH [OF a this step.prems(2)] show ?thesis
      unfolding build_loop_step [OF a, of d now seed] .
  next
    case False
    then show ?thesis
      using step.prems(1) by (simp add: build_loop_stop)
  qed
qed



lemma accept_extends: "\<exists>ys. accept d items cand = items @ ys"
  by (simp add: accept_def)


lemma build_loop_extends:
  "\<exists>ys. fst (build_loop d now seed items attempts) = items @ ys"
proof -
  let ?I = "\<lambda>xs (a::nat). \<exists>ys. xs = items @ ys"
  have "?I (fst (build_loop d now seed items attempts)) (snd (build_loop d now seed items attempts))
         \<and> \<not> (length (fst (build_loop d now seed items attempts)) < targetCount
              \<and> snd (build_loop d now seed items attempts) < maxAttempts)"
  proof (rule build_loop_invariant)
    show "?I items attempts" by simp
  next
    fix xs :: "pothole list" and a :: nat and cand
    assume "?I xs a"
    then obtain ys where "xs = items @ ys" by blast
    moreover obtain zs where "accept d xs cand = xs @ zs" using accept_extends by blast
    ultimately show "?I (accept d xs cand) (a + 1)" by simp
  qed
  then show ?thesis by blast
qed


lemma nth_reindex: "i < length items \<Longrightarrow> reindex items ! i = (items ! i)\<lparr> id' := i \<rparr>"
  by (simp add: reindex_def nth_enumerate_eq)

lemma separated_accept:
  assumes "separated d xs"
  shows "separated d (accept d xs cand)"
proof (cases "existsWithinMeters d xs cand 10")
  case True
  then show ?thesis using assms by (simp add: accept_def)
next
  case False
  then have far: "\<And>p. p \<in> set xs \<Longrightarrow> \<not> withinMeters d p cand 10"
    by (simp add: existsWithinMeters_iff)
  have "\<not> withinMeters d ((xs @ [cand]) ! i) ((xs @ [cand]) ! j) 10"
    if "j < length (xs @ [cand])" "i < j" for i j
  proof (cases "j < length xs")
    case True
    then show ?thesis using assms that by (simp add: separated_def nth_append)
  next
    case False
    then have j: "j = length xs" using that by simp
    then have "xs ! i \<in> set xs" using that by simp
    then show ?thesis using far j that by (simp add: nth_append)
  qed
  then show ?thesis using False by (simp add: accept_def separated_def)
qed

lemma build_loop_separated:
  assumes "separated d items"
  shows "separated d (fst (build_loop d now seed items attempts))"
proof -
  let ?I = "\<lambda>xs (a::nat). separated d xs"
  have "?I (fst (build_loop d now seed items attempts)) (snd (build_loop d now seed items attempts))
         \<and> \<not> (length (fst (build_loop d now seed items attempts)) < targetCount
              \<and> snd (build_loop d now seed items attempts) < maxAttempts)"
    by (rule build_loop_invariant) (use assms separated_accept in auto)
  then show ?thesis by simp
qed

lemma withinMeters_id: "withinMeters d (a\<lparr> id' := i \<rparr>) (b\<lparr> id' := j \<rparr>) m = withinMeters d a b m"
  by (simp add: withinMeters_def)

lemma separated_reindex: "separated d xs \<Longrightarrow> separated d (reindex xs)"
  by (simp add: separated_def length_reindex nth_reindex withinMeters_id)

lemma undated_candidate:
  "undated (fst (candidate n1 seed k)) = undated (fst (candidate n2 seed k))"
  by (simp add: candidate_def Let_def split_def undated_def)

lemma withinMeters_undated: "withinMeters d (undated a) (undated b) m = withinMeters d a b m"
  by (simp add: withinMeters_def undated_def)

lemma existsWithinMeters_undated:
  "existsWithinMeters d (map undated ps) (undated c) m = existsWithinMeters d ps c m"
  by (induction ps) (simp_all add: withinMeters_undated)

lemma accept_undated:
  assumes "map undated xs = map undated ys" "undated c = undated c'"
  shows "map undated (accept d xs c) = map undated (accept d ys c')"
proof -
  have "existsWithinMeters d xs c 10 = existsWithinMeters d ys c' 10"
    using assms existsWithinMeters_undated [of d xs c 10] existsWithinMeters_undated [of d ys c' 10]
    by simp
  then show ?thesis using assms by (simp add: accept_def)
qed

lemma build_loop_two_clocks:
  assumes "map undated items1 = map undated items2"
  shows "map undated (fst (build_loop d now1 seed items1 attempts)) =
         map undated (fst (build_loop d now2 seed items2 attempts))
       \<and> snd (build_loop d now1 seed items1 attempts) = snd (build_loop d now2 seed items2 attempts)"
  using assms
proof (induction d now1 seed items1 attempts arbitrary: items2 rule: build_loop_induct2)
  case (step d now1 seed items1 attempts)
  have len: "length items1 = length items2"
    using step.prems by (rule map_eq_imp_length_eq)
  show ?case
  proof (cases "length items1 < targetCount \<and> attempts < maxAttempts")
    case True
    then have a: "length items1 < targetCount" "attempts < maxAttempts" by simp_all
    have a2: "length items2 < targetCount" using a len by simp
    let ?c1 = "candidate (now1 (attempts + 1)) seed (attempts + 1)"
    let ?c2 = "candidate (now2 (attempts + 1)) seed (attempts + 1)"
    have s: "snd ?c1 = snd ?c2" by (simp add: snd_candidate)
    have "map undated (accept d items1 (fst ?c1)) = map undated (accept d items2 (fst ?c2))"
      using step.prems by (rule accept_undated) (rule undated_candidate)
    from step.IH [OF a this] show ?thesis
      unfolding build_loop_step [OF a, of d now1 seed] build_loop_step [OF a2 a(2), of d now2 seed] s .
  next
    case False
    then show ?thesis
      using step.prems len by (simp add: build_loop_stop)
  qed
qed

lemma build_loop_same_clock:
  assumes "\<forall>k. attempts < k \<and> k \<le> maxAttempts \<longrightarrow> now1 k = now2 k"
  shows "build_loop d now1 seed items attempts = build_loop d now2 seed items attempts"
  using assms
proof (induction d now1 seed items attempts rule: build_loop_induct2)
  case (step d now1 seed items attempts)
  show ?case
  proof (cases "length items < targetCount \<and> attempts < maxAttempts")
    case True
    then have a: "length items < targetCount" "attempts < maxAttempts" by simp_all
    have n: "now1 (attempts + 1) = now2 (attempts + 1)"
      using step.prems a by simp
    have "\<forall>k. attempts + 1 < k \<and> k \<le> maxAttempts \<longrightarrow> now1 k = now2 k"
      using step.prems by simp
    from step.IH [OF a this] show ?thesis
      unfolding build_loop_step [OF a, of d now1 seed] build_loop_step [OF a, of d now2 seed] n .
  next
    case False
    then show ?thesis by (simp add: build_loop_stop)
  qed
qed

lemma undated_reindex: "map undated (reindex xs) = reindex (map undated xs)"
  by (rule nth_equalityI) (simp_all add: length_reindex nth_reindex undated_def)

lemma undated_eq_iff:
  "undated p = undated q \<longleftrightarrow>
     id' p = id' q \<and> lat p = lat q \<and> lng p = lng q \<and> severity p = severity q \<and>
     status p = status q \<and> color p = color q \<and> size' p = size' q"
  by (cases p, cases q) (auto simp: undated_def)

subsection \<open>The first records at concrete inputs\<close>

lemma candidate_1_A:
  "candidate 1700000000000 12345 (Suc 0) =
     (\<lparr> id' = Suc 0, lat = 234368925683059 / 5368709120000,
        lng = - (213174542828767 / 2684354560000), severity = ''low'',
        status = ''pending'', color = Some ''#84cc16'', size' = 29,
        detected = 1699505313267 \<rparr>, 10989407223)"
  by (simp add: candidate_def mulberry32_def Let_def SEVERITIES_def STATUSES_def
      severityColors_def timeClip_def)

lemma candidate_2_A:
  "candidate 1700000000000 10989407223 (Suc (Suc 0)) =
     (\<lparr> id' = Suc (Suc 0), lat = 58582267063921 / 1342177280000,
        lng = - (106426647066321 / 1342177280000), severity = ''critical'',
        status = ''repaired'', color = Some ''#dc2626'', size' = 49,
        detected = 1699501026401 \<rparr>, 21978802101)"
  by (simp add: candidate_def mulberry32_def Let_def SEVERITIES_def STATUSES_def
      severityColors_def timeClip_def)

lemma detected_1_B: "detected (fst (candidate 1700000060000 12345 (Suc 0))) = 1699505373267"
  by (simp add: candidate_def mulberry32_def Let_def SEVERITIES_def STATUSES_def
      severityColors_def timeClip_def)

lemma first_step:
  "build_loop d now 12345 [] 0 =
   build_loop d now (snd (candidate (now 1) 12345 1)) [fst (candidate (now 1) 12345 1)] 1"
  using build_loop_step [of "[]" 0 d now 12345]
  by (simp add: targetCount_def maxAttempts_def accept_def)

lemma first_record:
  "0 < length (buildInitialPotholes d now)
   \<and> buildInitialPotholes d now ! 0 = (fst (candidate (now 1) 12345 1))\<lparr> id' := 0 \<rparr>"
proof -
  obtain ys where "fst (build_loop d now 12345 [] 0) = [fst (candidate (now 1) 12345 1)] @ ys"
    using build_loop_extends [of d now "snd (candidate (now 1) 12345 1)"
        "[fst (candidate (now 1) 12345 1)]" 1]
    by (auto simp: first_step)
  then show ?thesis
    by (simp add: buildInitialPotholes_def length_reindex nth_reindex)
qed

lemma first_two_records_A:
  "1 < length (buildInitialPotholes taxicab_km clock_A)
   \<and> buildInitialPotholes taxicab_km clock_A ! 0 = (fst (candidate 1700000000000 12345 (Suc 0)))\<lparr> id' := 0 \<rparr>
   \<and> buildInitialPotholes taxicab_km clock_A ! 1 = (fst (candidate 1700000000000 10989407223 (Suc (Suc 0))))\<lparr> id' := 1 \<rparr>"
proof -
  let ?c1 = "fst (candidate 1700000000000 12345 (Suc 0))"
  let ?c2 = "fst (candidate 1700000000000 10989407223 (Suc (Suc 0)))"
  have far: "\<not> existsWithinMeters taxicab_km [?c1] ?c2 10"
    by (simp add: candidate_1_A candidate_2_A withinMeters_def taxicab_km_def)
  have "build_loop taxicab_km clock_A 12345 [] 0 = build_loop taxicab_km clock_A 10989407223 [?c1] 1"
    by (simp add: first_step clock_A_def candidate_1_A)
  also have "\<dots> = build_loop taxicab_km clock_A 21978802101 [?c1, ?c2] (Suc (Suc 0))"
    using build_loop_step [of "[?c1]" 1 taxicab_km clock_A 10989407223] far
    by (simp add: targetCount_def maxAttempts_def accept_def clock_A_def candidate_2_A)
  finally obtain ys where "fst (build_loop taxicab_km clock_A 12345 [] 0) = [?c1, ?c2] @ ys"
    using build_loop_extends [of taxicab_km clock_A 21978802101 "[?c1, ?c2]" "Suc (Suc 0)"] by auto
  then show ?thesis
    by (simp add: buildInitialPotholes_def length_reindex nth_reindex)
qed

lemma first_two_records_are:
  "buildInitialPotholes taxicab_km clock_A ! 0 = record_1
   \<and> buildInitialPotholes taxicab_km clock_A ! 1 = record_2"
  using first_two_records_A by (simp add: candidate_1_A candidate_2_A record_1_def record_2_def)



section \<open>The selection: lemmas\<close>

lemma alreadyOnlyThis_iff: "card prev = 1 \<and> idx \<in> prev \<longleftrightarrow> prev = {idx}"
  by (auto simp: card_1_singleton_iff)

lemma selectOnly_eq: "selectOnly prev idx = (if prev = {idx} then {} else {idx})"
  unfolding selectOnly_def Let_def alreadyOnlyThis_iff by simp

lemma atMostOne_selectOnly: "atMostOne (selectOnly prev idx)"
  by (simp add: selectOnly_eq atMostOne_def)

lemma sel_fitNeighborhood:
  "selectedNeighborhoodIds (fitNeighborhood bv idx s) = selectedNeighborhoodIds s"
  by (simp add: fitNeighborhood_def split: option.splits geojson.splits sum.splits bool.splits)

lemma sel_searchNeighborhoods:
  assumes "searchNeighborhoods lc nf bv s = Some s'"
  shows "selectedNeighborhoodIds s' = selectedNeighborhoodIds s
         \<or> (\<exists>i. selectedNeighborhoodIds s' = {i})"
  using assms
  by (auto simp: searchNeighborhoods_def Let_def sel_fitNeighborhood
      split: if_splits option.splits prod.splits)

lemma sel_settleGeocode:
  "selectedNeighborhoodIds (settleGeocode pf m r s) = selectedNeighborhoodIds s
   \<or> selectedNeighborhoodIds (settleGeocode pf m r s) = {}"
  by (simp add: settleGeocode_def logGeocodeFailure_def
      split: geocode_response.splits option.splits geocode_body.splits list.splits
        geocode_entry.splits prod.splits)

lemma sel_step:
  "selectedNeighborhoodIds (step lc nf bv pf e s) = selectedNeighborhoodIds s
   \<or> atMostOne (selectedNeighborhoodIds (step lc nf bv pf e s))"
proof (cases e)
  case (ClickNeighborhood idx)
  then show ?thesis by (simp add: clickNeighborhood_def atMostOne_selectOnly)
next
  case (CheckNeighborhood idx)
  then show ?thesis by (simp add: checkNeighborhood_def atMostOne_selectOnly)
next
  case ClearFilters
  then show ?thesis by (simp add: clearFilters_def atMostOne_def)
next
  case SubmitSearch
  show ?thesis
  proof (cases "searchNeighborhoods lc nf bv s")
    case None
    with SubmitSearch show ?thesis by (simp add: sendGeocode_def logGeocodeFailure_def)
  next
    case (Some s')
    with SubmitSearch sel_searchNeighborhoods [OF Some] show ?thesis
      by (auto simp: atMostOne_def)
  qed
next
  case (GeocodeSettled m r)
  with sel_settleGeocode [of pf m r s] show ?thesis by (auto simp: atMostOne_def)
qed (simp_all add: applyFilters_def)

section \<open>The filter: lemmas\<close>

lemma filterFrom_total:
  assumes "\<And>i p. callback i p = Inr (g i p)"
  shows "filterFrom callback i ps = Inr (map snd (filter (\<lambda>(j, p). g j p) (enumerate i ps)))"
  by (induction ps arbitrary: i) (simp_all add: assms)

lemma filterFrom_member:
  assumes "filterFrom callback i ps = Inr out" "p \<in> set out"
  shows "\<exists>j. callback j p = Inr True"
  using assms
proof (induction ps arbitrary: i out)
  case Nil
  then show ?case by simp
next
  case (Cons a ps)
  from Cons.prems(1) obtain b rest where
    b: "callback i a = Inr b" and rest: "filterFrom callback (i + 1) ps = Inr rest"
    and out: "out = (if b then a # rest else rest)"
    by (auto split: sum.splits)
  show ?case
  proof (cases "p \<in> set rest")
    case True
    then show ?thesis using Cons.IH [OF rest] by blast
  next
    case False
    then have "b" "p = a" using out Cons.prems(2) by (auto split: if_splits)
    then have "callback i p = Inr True" using b by simp
    then show ?thesis by blast
  qed
qed

lemma somePolygon_all_outside:
  assumes "\<forall>f \<in> set fs. pip pt f = Inr False"
  shows "somePolygon pip pt fs = Inr False"
  using assms by (induction fs) simp_all

lemma keep_outside:
  assumes "pointOnAnyPolygon pip (lat p) (lng p) fc = Inr False"
  shows "keep pip toNumber cal fc active sf p = Inr False"
  using assms by (simp add: keep_def)

lemma keep_no_collection:
  "keep pip toNumber cal None None sf p = Inr (attributesPass toNumber cal sf p)"
  by (simp add: keep_def pointOnAnyPolygon_def)

lemma filteredPotholes_no_collection:
  "filteredPotholes pip toNumber cal ps sf None selectedIds =
     Inr (map snd (filter (\<lambda>(i, p). attributesPass toNumber (cal i) sf p) (enumerate 0 ps)))"
  by (simp add: filteredPotholes_def activeNeighborhoods_def keep_no_collection filterFrom_total)










section \<open>The search: lemmas\<close>

lemma includes_iff_sublist: "includes' name q \<longleftrightarrow> sublist q name"
  by (induction name) (auto simp: sublist_Cons_right)

lemma trim_whitespace:
  assumes "list_all isWhiteSpace s"
  shows "trim s = []"
proof -
  have d: "dropWhile isWhiteSpace s = []"
    using assms by (induction s) simp_all
  show ?thesis unfolding trim_def d by simp
qed

lemma normalize_whitespace:
  assumes "\<And>s. list_all isWhiteSpace s \<Longrightarrow> list_all isWhiteSpace (nf (lc s))"
    and "list_all isWhiteSpace q"
  shows "normalize lc nf q = []"
proof -
  have "list_all isWhiteSpace (nf (lc q))" using assms by blast
  then have "list_all isWhiteSpace (filter (\<lambda>c. \<not> (0x300 \<le> c \<and> c \<le> 0x36f)) (nf (lc q)))"
    by (simp add: list_all_iff)
  then show ?thesis unfolding normalize_def by (rule trim_whitespace)
qed

lemma find_index_Some:
  assumes "k < length fs" "P (N (fs ! k))" "\<forall>j < k. \<not> P (N (fs ! j))"
  shows "find (\<lambda>(idx, name). P name) (map (\<lambda>(idx, f). (idx, N f)) (enumerate i fs)) =
         Some (i + k, N (fs ! k))"
  using assms
proof (induction fs arbitrary: i k)
  case Nil
  then show ?case by simp
next
  case (Cons f fs)
  show ?case
  proof (cases k)
    case 0
    then show ?thesis using Cons.prems by simp
  next
    case (Suc k')
    have "\<not> P (N f)" using Cons.prems(3) Suc by auto
    moreover have "find (\<lambda>(idx, name). P name) (map (\<lambda>(idx, f). (idx, N f)) (enumerate (Suc i) fs)) =
         Some (Suc i + k', N (fs ! k'))"
      using Cons.prems Suc by (intro Cons.IH) auto
    ultimately show ?thesis using Suc by simp
  qed
qed

lemma find_index_None:
  assumes "\<forall>j < length fs. \<not> P (N (fs ! j))"
  shows "find (\<lambda>(idx, name). P name) (map (\<lambda>(idx, f). (idx, N f)) (enumerate i fs)) = None"
proof -
  have "\<forall>f \<in> set fs. \<not> P (N f)"
    using assms by (auto simp: in_set_conv_nth)
  then show ?thesis
    by (auto simp: find_None_iff in_set_enumerate_eq)
qed

lemma enumerate_Nil_iff: "enumerate n xs = [] \<longleftrightarrow> xs = []"
  by (cases xs) simp_all

lemma index_empty_names:
  "neighborhoodIndex lc nf fc = [] \<longleftrightarrow> boundaryNames lc nf fc = []"
  by (simp add: neighborhoodIndex_def boundaryNames_def enumerate_Nil_iff
      split: option.splits geojson.splits)

lemma find_in_index_Some:
  assumes "k < length (boundaryNames lc nf fc)" "P (boundaryNames lc nf fc ! k)"
    "\<forall>j < k. \<not> P (boundaryNames lc nf fc ! j)"
  shows "(if neighborhoodIndex lc nf fc \<noteq> [] then find (\<lambda>(idx, name). P name) (neighborhoodIndex lc nf fc) else None)
         = Some (k, boundaryNames lc nf fc ! k)"
proof -
  from assms(1) obtain fs where fc: "fc = Some (FeatureCollection fs)"
    by (auto simp: boundaryNames_def split: option.splits geojson.splits)
  have k: "k < length fs" using assms(1) by (simp add: fc boundaryNames_def)
  have "find (\<lambda>(idx, name). P name)
          (map (\<lambda>(idx, f). (idx, normalize lc nf (featureName f))) (enumerate 0 fs)) =
        Some (0 + k, normalize lc nf (featureName (fs ! k)))"
  proof (rule find_index_Some [OF k])
    show "P (normalize lc nf (featureName (fs ! k)))"
      using assms(2) k by (simp add: fc boundaryNames_def)
    show "\<forall>j<k. \<not> P (normalize lc nf (featureName (fs ! j)))"
      using assms(3) k by (simp add: fc boundaryNames_def)
  qed
  moreover have "neighborhoodIndex lc nf fc \<noteq> []"
    using assms(1) by (auto simp: index_empty_names)
  ultimately show ?thesis
    using k by (simp add: fc neighborhoodIndex_def boundaryNames_def)
qed

lemma find_in_index_None:
  assumes "\<forall>j < length (boundaryNames lc nf fc). \<not> P (boundaryNames lc nf fc ! j)"
  shows "(if neighborhoodIndex lc nf fc \<noteq> [] then find (\<lambda>(idx, name). P name) (neighborhoodIndex lc nf fc) else None)
         = None"
proof (cases "\<exists>fs. fc = Some (FeatureCollection fs)")
  case True
  then obtain fs where fc: "fc = Some (FeatureCollection fs)" by blast
  have "find (\<lambda>(idx, name). P name)
          (map (\<lambda>(idx, f). (idx, normalize lc nf (featureName f))) (enumerate 0 fs)) = None"
    using assms by (intro find_index_None) (simp add: fc boundaryNames_def)
  then show ?thesis by (simp add: fc neighborhoodIndex_def)
next
  case False
  then have "neighborhoodIndex lc nf fc = []"
    by (auto simp: neighborhoodIndex_def split: option.splits geojson.splits)
  then show ?thesis by simp
qed

lemma requests_fitNeighborhood:
  "geocodeRequests (fitNeighborhood bv idx s) = geocodeRequests s"
  by (simp add: fitNeighborhood_def split: option.splits geojson.splits sum.splits bool.splits)

lemma search_empty:
  assumes "normalize lc nf (searchQuery s) = []"
  shows "searchNeighborhoods lc nf bv s = Some s"
  using assms by (simp add: searchNeighborhoods_def Let_def)

lemma search_exact:
  assumes "normalize lc nf (searchQuery s) \<noteq> []"
    and "k < length (boundaryNames lc nf (neighborhoodsFC s))"
    and "boundaryNames lc nf (neighborhoodsFC s) ! k = normalize lc nf (searchQuery s)"
    and "\<forall>j < k. boundaryNames lc nf (neighborhoodsFC s) ! j \<noteq> normalize lc nf (searchQuery s)"
  shows "searchNeighborhoods lc nf bv s =
         Some (fitNeighborhood bv k (s\<lparr> selectedNeighborhoodIds := {k} \<rparr>))"
  using assms(1)
    find_in_index_Some [of k lc nf "neighborhoodsFC s" "\<lambda>name. name = normalize lc nf (searchQuery s)",
      OF assms(2) assms(3)] assms(4)
  by (simp add: searchNeighborhoods_def Let_def)

lemma search_fuzzy:
  assumes "normalize lc nf (searchQuery s) \<noteq> []"
    and "\<forall>j < length (boundaryNames lc nf (neighborhoodsFC s)).
           boundaryNames lc nf (neighborhoodsFC s) ! j \<noteq> normalize lc nf (searchQuery s)"
    and "k < length (boundaryNames lc nf (neighborhoodsFC s))"
    and "includes' (boundaryNames lc nf (neighborhoodsFC s) ! k) (normalize lc nf (searchQuery s))"
    and "\<forall>j < k. \<not> includes' (boundaryNames lc nf (neighborhoodsFC s) ! j) (normalize lc nf (searchQuery s))"
  shows "searchNeighborhoods lc nf bv s =
         Some (fitNeighborhood bv k (s\<lparr> selectedNeighborhoodIds := {k} \<rparr>))"
  using assms(1)
    find_in_index_None [of lc nf "neighborhoodsFC s" "\<lambda>name. name = normalize lc nf (searchQuery s)"]
    assms(2)
    find_in_index_Some [of k lc nf "neighborhoodsFC s" "\<lambda>name. includes' name (normalize lc nf (searchQuery s))",
      OF assms(3) assms(4)] assms(5)
  by (simp add: searchNeighborhoods_def Let_def)

lemma search_fallback:
  assumes "normalize lc nf (searchQuery s) \<noteq> []"
    and "\<forall>j < length (boundaryNames lc nf (neighborhoodsFC s)).
           \<not> includes' (boundaryNames lc nf (neighborhoodsFC s) ! j) (normalize lc nf (searchQuery s))"
  shows "searchNeighborhoods lc nf bv s = None"
proof -
  have "\<forall>j < length (boundaryNames lc nf (neighborhoodsFC s)).
           boundaryNames lc nf (neighborhoodsFC s) ! j \<noteq> normalize lc nf (searchQuery s)"
    using assms(2) by (auto simp: includes_iff_sublist)
  then show ?thesis
    using assms(1)
      find_in_index_None [of lc nf "neighborhoodsFC s" "\<lambda>name. name = normalize lc nf (searchQuery s)"]
      find_in_index_None [of lc nf "neighborhoodsFC s" "\<lambda>name. includes' name (normalize lc nf (searchQuery s))"]
      assms(2)
    by (simp add: searchNeighborhoods_def Let_def)
qed

lemma requests_settleGeocode:
  "geocodeRequests (settleGeocode pf m r s) = geocodeRequests s"
  by (simp add: settleGeocode_def logGeocodeFailure_def
      split: geocode_response.splits option.splits geocode_body.splits list.splits
        geocode_entry.splits prod.splits)

lemma settle_failed:
  assumes "responseFailed r"
  shows "settleGeocode pf m r s = s\<lparr> errorsLogged := errorsLogged s + 1 \<rparr>"
  using assms
  by (cases r)
    (auto simp: settleGeocode_def logGeocodeFailure_def
      split: option.splits geocode_body.splits list.splits geocode_entry.splits)

lemma settle_found:
  assumes "pf a = Some x" "pf b = Some y"
  shows "settleGeocode pf m (Response True (Some (Results (Entry a b # rest)))) s =
         (if m then s\<lparr> selectedNeighborhoodIds := {},
                      viewCommands := viewCommands s @ [FlyTo x y 13] \<rparr>
          else s)"
  using assms by (simp add: settleGeocode_def)

section \<open>Evaluation at the concrete inputs\<close>

lemmas concrete_defs =
  run_def initialState_def clickNeighborhood_def checkNeighborhood_def selectOnly_def
  twoBoundaries_def kensington_def eastEnd_def record_1_def record_2_def calendars0_def
  noCriteria_def geocodeFound_def geocodeDown_def parseFloatTable_def
  numberTable_def asciiLower_def asciiNfkd_def validBounds_def boxContains_def js_def

lemmas search_defs =
  handleSearch_def searchNeighborhoods_def neighborhoodIndex_def
  featureName_def nameKeys_def normalize_def trim_def isWhiteSpace_def fitNeighborhood_def
  settleGeocode_def sendGeocode_def logGeocodeFailure_def geocodeFallback_def
  isHighSurrogate_def isLowSurrogate_def Let_def

lemmas filter_defs =
  rendered_def filteredPotholes_def activeNeighborhoods_def keep_def pointOnAnyPolygon_def
  attributesPass_def dateInRange_def lessThanNumber_def greaterThanNumber_def Let_def

lemma names_two:
  "boundaryNames asciiLower asciiNfkd twoBoundaries = [js ''kensington market'', js ''east end'']"
  by (simp add: concrete_defs search_defs boundaryNames_def)

lemma ascii_keeps_whitespace:
  "\<forall>x. list_all isWhiteSpace x \<longrightarrow> list_all isWhiteSpace (asciiNfkd (asciiLower x))"
  by (auto simp: asciiNfkd_def asciiLower_def list_all_iff isWhiteSpace_def)

lemma searching_fields:
  "searchQuery (searching q) = q"
  "neighborhoodsFC (searching q) = twoBoundaries"
  "selectedNeighborhoodIds (searching q) = {1}"
  "geocodeRequests (searching q) = []"
  "viewCommands (searching q) = []"
  "mapReady (searching q) = False"
  "errorsLogged (searching q) = 0"
  by (simp_all add: searching_def run_def initialState_def clickNeighborhood_def selectOnly_def)

section \<open>Properties\<close>

subsection \<open>The generator is deterministic up to the clock\<close>

text \<open>
  Claim C1, as amended. The generator reads the clock (\<open>Date.now()\<close>) in every iteration,
  so two runs are not identical in the detection timestamps. For the fixed seed 12345,
  any two runs (any two clocks) return lists of the same length whose records agree, in
  the same order, in identifier, latitude, longitude, severity, status, colour and size;
  and two runs that read the same clock values in attempts 1 to 4000 return identical
  lists, detection timestamps included.
\<close>

theorem generator_deterministic_up_to_clock:
  "length (buildInitialPotholes distance now1) = length (buildInitialPotholes distance now2)
   \<and> (\<forall>i < length (buildInitialPotholes distance now1).
         id' (buildInitialPotholes distance now1 ! i) = id' (buildInitialPotholes distance now2 ! i)
       \<and> lat (buildInitialPotholes distance now1 ! i) = lat (buildInitialPotholes distance now2 ! i)
       \<and> lng (buildInitialPotholes distance now1 ! i) = lng (buildInitialPotholes distance now2 ! i)
       \<and> severity (buildInitialPotholes distance now1 ! i) = severity (buildInitialPotholes distance now2 ! i)
       \<and> status (buildInitialPotholes distance now1 ! i) = status (buildInitialPotholes distance now2 ! i)
       \<and> color (buildInitialPotholes distance now1 ! i) = color (buildInitialPotholes distance now2 ! i)
       \<and> size' (buildInitialPotholes distance now1 ! i) = size' (buildInitialPotholes distance now2 ! i))
   \<and> ((\<forall>k. 1 \<le> k \<and> k \<le> 4000 \<longrightarrow> now1 k = now2 k) \<longrightarrow>
        buildInitialPotholes distance now1 = buildInitialPotholes distance now2)"
proof -
  let ?o1 = "buildInitialPotholes distance now1" and ?o2 = "buildInitialPotholes distance now2"
  have "map undated (fst (build_loop distance now1 12345 [] 0)) =
        map undated (fst (build_loop distance now2 12345 [] 0))"
    using build_loop_two_clocks [of "[]" "[]" distance now1 12345 0 now2] by simp
  then have eq: "map undated ?o1 = map undated ?o2"
    by (simp add: buildInitialPotholes_def undated_reindex)
  then have len: "length ?o1 = length ?o2"
    by (rule map_eq_imp_length_eq)
  have fields: "undated (?o1 ! i) = undated (?o2 ! i)" if "i < length ?o1" for i
    using that len nth_map [of i ?o1 undated] nth_map [of i ?o2 undated] eq by simp
  have same: "?o1 = ?o2" if "\<forall>k. 1 \<le> k \<and> k \<le> 4000 \<longrightarrow> now1 k = now2 k"
  proof -
    have "\<forall>k. 0 < k \<and> k \<le> maxAttempts \<longrightarrow> now1 k = now2 k"
      using that by (simp add: maxAttempts_def targetCount_def)
    then have "build_loop distance now1 12345 [] 0 = build_loop distance now2 12345 [] 0"
      by (rule build_loop_same_clock)
    then show ?thesis by (simp add: buildInitialPotholes_def)
  qed
  show ?thesis
    using len fields same by (simp add: undated_eq_iff)
qed

text \<open>
  The amended claim C1 at two page loads one minute apart, and at two clocks that agree
  wherever the generator reads them.
\<close>

theorem generator_deterministic_up_to_clock_witness:
  "length (buildInitialPotholes taxicab_km clock_A) = length (buildInitialPotholes taxicab_km clock_B)
   \<and> 0 < length (buildInitialPotholes taxicab_km clock_A)
   \<and> id' (buildInitialPotholes taxicab_km clock_B ! 0) = 0
   \<and> lat (buildInitialPotholes taxicab_km clock_B ! 0) = 234368925683059 / 5368709120000
   \<and> lng (buildInitialPotholes taxicab_km clock_B ! 0) = - (213174542828767 / 2684354560000)
   \<and> severity (buildInitialPotholes taxicab_km clock_B ! 0) = ''low''
   \<and> status (buildInitialPotholes taxicab_km clock_B ! 0) = ''pending''
   \<and> color (buildInitialPotholes taxicab_km clock_B ! 0) = Some ''#84cc16''
   \<and> size' (buildInitialPotholes taxicab_km clock_B ! 0) = 29
   \<and> clock_A 0 \<noteq> clock_A0 0
   \<and> buildInitialPotholes taxicab_km clock_A = buildInitialPotholes taxicab_km clock_A0"
proof -
  have pos: "0 < length (buildInitialPotholes taxicab_km clock_A)"
    using first_record [of taxicab_km clock_A] by simp
  have first: "buildInitialPotholes taxicab_km clock_A ! 0 =
      \<lparr> id' = 0, lat = 234368925683059 / 5368709120000,
        lng = - (213174542828767 / 2684354560000), severity = ''low'',
        status = ''pending'', color = Some ''#84cc16'', size' = 29,
        detected = 1699505313267 \<rparr>"
    using first_record [of taxicab_km clock_A] by (simp add: clock_A_def candidate_1_A)
  have same: "\<forall>k. 1 \<le> k \<and> k \<le> 4000 \<longrightarrow> clock_A k = clock_A0 k"
    by (simp add: clock_A_def clock_A0_def)
  have fields: "length (buildInitialPotholes taxicab_km clock_A) = length (buildInitialPotholes taxicab_km clock_B)
   \<and> id' (buildInitialPotholes taxicab_km clock_B ! 0) = 0
   \<and> lat (buildInitialPotholes taxicab_km clock_B ! 0) = 234368925683059 / 5368709120000
   \<and> lng (buildInitialPotholes taxicab_km clock_B ! 0) = - (213174542828767 / 2684354560000)
   \<and> severity (buildInitialPotholes taxicab_km clock_B ! 0) = ''low''
   \<and> status (buildInitialPotholes taxicab_km clock_B ! 0) = ''pending''
   \<and> color (buildInitialPotholes taxicab_km clock_B ! 0) = Some ''#84cc16''
   \<and> size' (buildInitialPotholes taxicab_km clock_B ! 0) = 29"
  proof -
    note T = generator_deterministic_up_to_clock [of taxicab_km clock_A clock_B]
    from T have len: "length (buildInitialPotholes taxicab_km clock_A) =
        length (buildInitialPotholes taxicab_km clock_B)"
      by (rule conjunct1)
    from T pos have
      "id' (buildInitialPotholes taxicab_km clock_A ! 0) = id' (buildInitialPotholes taxicab_km clock_B ! 0)
       \<and> lat (buildInitialPotholes taxicab_km clock_A ! 0) = lat (buildInitialPotholes taxicab_km clock_B ! 0)
       \<and> lng (buildInitialPotholes taxicab_km clock_A ! 0) = lng (buildInitialPotholes taxicab_km clock_B ! 0)
       \<and> severity (buildInitialPotholes taxicab_km clock_A ! 0) = severity (buildInitialPotholes taxicab_km clock_B ! 0)
       \<and> status (buildInitialPotholes taxicab_km clock_A ! 0) = status (buildInitialPotholes taxicab_km clock_B ! 0)
       \<and> color (buildInitialPotholes taxicab_km clock_A ! 0) = color (buildInitialPotholes taxicab_km clock_B ! 0)
       \<and> size' (buildInitialPotholes taxicab_km clock_A ! 0) = size' (buildInitialPotholes taxicab_km clock_B ! 0)"
      by blast
    with len show ?thesis
      unfolding first by simp
  qed
  have eq: "buildInitialPotholes taxicab_km clock_A = buildInitialPotholes taxicab_km clock_A0"
    using generator_deterministic_up_to_clock [of taxicab_km clock_A clock_A0] same
    by blast
  have "clock_A 0 \<noteq> clock_A0 0"
    by (simp add: clock_A_def clock_A0_def)
  with fields pos eq show ?thesis
    by blast
qed

text \<open>
  Claim C1 as stated fails: two runs whose clocks differ by one minute return different
  lists; the first records are detected at 1699505313267 and at 1699505373267.
\<close>

theorem generator_timestamps_differ:
  "detected (buildInitialPotholes taxicab_km clock_A ! 0) = 1699505313267
   \<and> detected (buildInitialPotholes taxicab_km clock_B ! 0) = 1699505373267
   \<and> buildInitialPotholes taxicab_km clock_A \<noteq> buildInitialPotholes taxicab_km clock_B"
proof -
  have a: "detected (buildInitialPotholes taxicab_km clock_A ! 0) = 1699505313267"
    using first_record [of taxicab_km clock_A] by (simp add: clock_A_def candidate_1_A)
  have b: "detected (buildInitialPotholes taxicab_km clock_B ! 0) = 1699505373267"
    using first_record [of taxicab_km clock_B] by (simp add: clock_B_def detected_1_B)
  from a b have "buildInitialPotholes taxicab_km clock_A \<noteq> buildInitialPotholes taxicab_km clock_B"
    by auto
  with a b show ?thesis by simp
qed

subsection \<open>Generated records are separated\<close>

text \<open>
  Claim C2. In the list the generator returns, a record is never within 10 metres of an
  earlier record, where the distance is the one the code computes (from the earlier to
  the later record, in kilometres, times 1000): every pair of distinct records is at
  least 10 m apart. For a symmetric distance the same holds in the other order.
\<close>

theorem generated_records_separated:
  assumes "i < j" and "j < length (buildInitialPotholes distance now)"
  shows "\<not> withinMeters distance (buildInitialPotholes distance now ! i)
            (buildInitialPotholes distance now ! j) 10
       \<and> 10 \<le> distance (lng (buildInitialPotholes distance now ! i), lat (buildInitialPotholes distance now ! i))
                 (lng (buildInitialPotholes distance now ! j), lat (buildInitialPotholes distance now ! j)) * 1000
       \<and> ((\<forall>a b. distance a b = distance b a) \<longrightarrow>
            \<not> withinMeters distance (buildInitialPotholes distance now ! j)
                (buildInitialPotholes distance now ! i) 10)"
proof -
  have "separated distance []" by (simp add: separated_def)
  then have "separated distance (buildInitialPotholes distance now)"
    unfolding buildInitialPotholes_def by (intro separated_reindex build_loop_separated)
  then have "\<not> withinMeters distance (buildInitialPotholes distance now ! i)
            (buildInitialPotholes distance now ! j) 10"
    using assms by (simp add: separated_def)
  then show ?thesis by (auto simp: withinMeters_def Let_def)
qed

text \<open>
  Claim C2 at the first two records of a run.
\<close>

theorem generated_records_separated_witness:
  "(0::nat) < 1 \<and> 1 < length (buildInitialPotholes taxicab_km clock_A)
   \<and> \<not> withinMeters taxicab_km (buildInitialPotholes taxicab_km clock_A ! 0)
         (buildInitialPotholes taxicab_km clock_A ! 1) 10
   \<and> 10 \<le> taxicab_km (- (213174542828767 / 2684354560000), 234368925683059 / 5368709120000)
                (- (106426647066321 / 1342177280000), 58582267063921 / 1342177280000) * 1000
   \<and> \<not> withinMeters taxicab_km (buildInitialPotholes taxicab_km clock_A ! 1)
         (buildInitialPotholes taxicab_km clock_A ! 0) 10"
proof -
  have two: "1 < length (buildInitialPotholes taxicab_km clock_A)"
    using first_two_records_A by simp
  have sym: "\<forall>a b. taxicab_km a b = taxicab_km b a"
    by (simp add: taxicab_km_def abs_minus_commute)
  show ?thesis
    using generated_records_separated [of 0 1 taxicab_km clock_A] two sym first_two_records_A
    by (simp add: candidate_1_A candidate_2_A)
qed

subsection \<open>The boundary step of the filter\<close>

text \<open>
  Claim C3. A record whose point lies outside every polygon of the boundary collection
  fails the first test of the filter: the callback returns \<open>false\<close> for it whatever the
  selection, the calendar and the criteria are, and it is in no list that the filter
  returns. When the boundary collection is absent (\<open>null\<close>) the first test passes for
  every record, and the filter does not throw: it returns the records that pass the
  tests of the attributes.
\<close>

theorem boundary_membership_step:
  "(fc = Some (FeatureCollection features)
      \<longrightarrow> (\<forall>f \<in> set features. pip (lng p, lat p) f = Inr False)
      \<longrightarrow> pointOnAnyPolygon pip (lat p) (lng p) fc = Inr False)
   \<and> (fc = Some (OtherGeoJSON g) \<longrightarrow> pip (lng p, lat p) g = Inr False
      \<longrightarrow> pointOnAnyPolygon pip (lat p) (lng p) fc = Inr False)
   \<and> (pointOnAnyPolygon pip (lat p) (lng p) fc = Inr False
      \<longrightarrow> (\<forall>cal active sf. keep pip toNumber cal fc active sf p = Inr False)
        \<and> (\<forall>cal ps0 sf selectedIds out.
              filteredPotholes pip toNumber cal ps0 sf fc selectedIds = Inr out
              \<longrightarrow> p \<notin> set out))
   \<and> pointOnAnyPolygon pip (lat p) (lng p) None = Inr True
   \<and> (\<forall>cal ps0 sf selectedIds.
         filteredPotholes pip toNumber cal ps0 sf None selectedIds =
           Inr (map snd (filter (\<lambda>(i, q). attributesPass toNumber (cal i) sf q)
                  (enumerate 0 ps0))))"
proof -
  have out: "p \<notin> set out"
    if f: "pointOnAnyPolygon pip (lat p) (lng p) fc = Inr False"
      and r: "filteredPotholes pip toNumber cal ps0 sf fc selectedIds = Inr out"
    for cal ps0 sf selectedIds out
  proof
    assume m: "p \<in> set out"
    from r obtain active where
      "filterFrom (\<lambda>i q. keep pip toNumber (cal i) fc active sf q) 0 ps0 = Inr out"
      by (auto simp: filteredPotholes_def split: sum.splits)
    from filterFrom_member [OF this m] obtain j where
      "keep pip toNumber (cal j) fc active sf p = Inr True" by blast
    then show False by (simp add: keep_outside [OF f])
  qed
  show ?thesis
    by (auto simp: pointOnAnyPolygon_def somePolygon_all_outside keep_outside
        filteredPotholes_no_collection out)
qed

text \<open>
  Claim C3 at a collection with one boundary, a record outside it and a record inside
  it, and at the absent collection.
\<close>

theorem boundary_membership_step_witness:
  "pointOnAnyPolygon boxContains (lat record_1) (lng record_1)
     (Some (FeatureCollection [eastEnd])) = Inr False
   \<and> keep boxContains numberTable (calendars0 0) (Some (FeatureCollection [eastEnd])) None
       noCriteria record_1 = Inr False
   \<and> filteredPotholes boxContains numberTable calendars0 [record_1, record_2] noCriteria
       (Some (FeatureCollection [eastEnd])) {} = Inr [record_2]
   \<and> record_1 \<notin> set [record_2]
   \<and> filteredPotholes boxContains numberTable calendars0 [record_1, record_2] noCriteria
       None {} = Inr [record_1, record_2]"
proof -
  note T = boundary_membership_step [where fc = "Some (FeatureCollection [eastEnd])"
      and features = "[eastEnd]" and pip = boxContains and p = record_1
      and toNumber = numberTable]
  have outside: "\<forall>f \<in> set [eastEnd]. boxContains (lng record_1, lat record_1) f = Inr False"
    by (simp add: concrete_defs)
  have a: "pointOnAnyPolygon boxContains (lat record_1) (lng record_1)
     (Some (FeatureCollection [eastEnd])) = Inr False"
    using T [THEN conjunct1, THEN mp, OF refl, THEN mp, OF outside] .
  note dropped = T [THEN conjunct2, THEN conjunct2, THEN conjunct1, THEN mp, OF a]
  have b: "keep boxContains numberTable (calendars0 0) (Some (FeatureCollection [eastEnd])) None
       noCriteria record_1 = Inr False"
    using dropped [THEN conjunct1, THEN spec, THEN spec, THEN spec] .
  have c: "filteredPotholes boxContains numberTable calendars0 [record_1, record_2] noCriteria
       (Some (FeatureCollection [eastEnd])) {} = Inr [record_2]"
    by (simp add: concrete_defs filter_defs)
  have d: "record_1 \<notin> set [record_2]"
    using dropped [THEN conjunct2, THEN spec, THEN spec, THEN spec, THEN spec, THEN spec,
        THEN mp, OF c] .
  have e: "filteredPotholes boxContains numberTable calendars0 [record_1, record_2] noCriteria
       None {} = Inr [record_1, record_2]"
    using T [THEN conjunct2, THEN conjunct2, THEN conjunct2, THEN conjunct2,
        THEN spec, THEN spec, THEN spec, THEN spec,
        of calendars0 "[record_1, record_2]" noCriteria "{}"]
    by (simp add: concrete_defs filter_defs)
  show ?thesis by (intro conjI a b c d e)
qed

subsection \<open>The order of the search\<close>

text \<open>
  Claim C4. \<open>handleSearch\<close> resolves a query in this order. When the normalized query is
  empty, in particular when the query consists of white space only (for a runtime whose
  \<open>toLowerCase\<close> and NFKD map white space to white space), nothing changes and no
  request is sent. Otherwise, when a normalized boundary name equals the normalized
  query, the first such boundary \<open>k\<close> becomes the selection \<open>{k}\<close> and no request is
  sent. Otherwise, when a normalized boundary name contains the normalized query, the
  first such boundary in index order becomes the selection and no request is sent.
  Otherwise the fallback (the \<open>try\<close> block of step 3) runs: for a well-formed query one
  request with the raw query is sent to the geocoding service. \<open>includes'\<close> is the
  substring test.
\<close>

theorem search_priority:
  "(normalize lc nf (searchQuery s) = [] \<longrightarrow> handleSearch lc nf bv pf geocode s = s)
   \<and> ((\<forall>x. list_all isWhiteSpace x \<longrightarrow> list_all isWhiteSpace (nf (lc x))) \<longrightarrow>
        list_all isWhiteSpace (searchQuery s) \<longrightarrow> handleSearch lc nf bv pf geocode s = s)
   \<and> (normalize lc nf (searchQuery s) \<noteq> [] \<longrightarrow>
        (\<forall>k < length (boundaryNames lc nf (neighborhoodsFC s)).
           boundaryNames lc nf (neighborhoodsFC s) ! k = normalize lc nf (searchQuery s) \<longrightarrow>
           (\<forall>j < k. boundaryNames lc nf (neighborhoodsFC s) ! j \<noteq> normalize lc nf (searchQuery s)) \<longrightarrow>
             handleSearch lc nf bv pf geocode s =
               fitNeighborhood bv k (s\<lparr> selectedNeighborhoodIds := {k} \<rparr>)
           \<and> selectedNeighborhoodIds (handleSearch lc nf bv pf geocode s) = {k}
           \<and> geocodeRequests (handleSearch lc nf bv pf geocode s) = geocodeRequests s))
   \<and> (normalize lc nf (searchQuery s) \<noteq> [] \<longrightarrow>
        (\<forall>j < length (boundaryNames lc nf (neighborhoodsFC s)).
           boundaryNames lc nf (neighborhoodsFC s) ! j \<noteq> normalize lc nf (searchQuery s)) \<longrightarrow>
        (\<forall>k < length (boundaryNames lc nf (neighborhoodsFC s)).
           includes' (boundaryNames lc nf (neighborhoodsFC s) ! k) (normalize lc nf (searchQuery s)) \<longrightarrow>
           (\<forall>j < k. \<not> includes' (boundaryNames lc nf (neighborhoodsFC s) ! j)
                        (normalize lc nf (searchQuery s))) \<longrightarrow>
             handleSearch lc nf bv pf geocode s =
               fitNeighborhood bv k (s\<lparr> selectedNeighborhoodIds := {k} \<rparr>)
           \<and> selectedNeighborhoodIds (handleSearch lc nf bv pf geocode s) = {k}
           \<and> geocodeRequests (handleSearch lc nf bv pf geocode s) = geocodeRequests s))
   \<and> (normalize lc nf (searchQuery s) \<noteq> [] \<longrightarrow>
        (\<forall>j < length (boundaryNames lc nf (neighborhoodsFC s)).
           \<not> includes' (boundaryNames lc nf (neighborhoodsFC s) ! j) (normalize lc nf (searchQuery s))) \<longrightarrow>
          handleSearch lc nf bv pf geocode s = geocodeFallback pf geocode s
        \<and> (isWellFormed (searchQuery s) \<longrightarrow>
             geocodeRequests (handleSearch lc nf bv pf geocode s) =
               geocodeRequests s @ [searchQuery s]))
   \<and> (\<forall>name q. includes' name q \<longleftrightarrow> sublist q name)"
proof -
  let ?q = "normalize lc nf (searchQuery s)"
  let ?names = "boundaryNames lc nf (neighborhoodsFC s)"
  let ?h = "handleSearch lc nf bv pf geocode s"
  have empty: "?h = s" if "?q = []"
    using search_empty [OF that] by (simp add: handleSearch_def)
  have blank: "?h = s"
    if "\<forall>x. list_all isWhiteSpace x \<longrightarrow> list_all isWhiteSpace (nf (lc x))"
      and "list_all isWhiteSpace (searchQuery s)"
  proof (rule empty)
    show "?q = []" using that by (intro normalize_whitespace) auto
  qed
  have found: "?h = fitNeighborhood bv k (s\<lparr> selectedNeighborhoodIds := {k} \<rparr>)
           \<and> selectedNeighborhoodIds ?h = {k} \<and> geocodeRequests ?h = geocodeRequests s"
    if "searchNeighborhoods lc nf bv s = Some (fitNeighborhood bv k (s\<lparr> selectedNeighborhoodIds := {k} \<rparr>))"
    for k
    using that by (simp add: handleSearch_def sel_fitNeighborhood requests_fitNeighborhood)
  have exact: "?h = fitNeighborhood bv k (s\<lparr> selectedNeighborhoodIds := {k} \<rparr>)
           \<and> selectedNeighborhoodIds ?h = {k} \<and> geocodeRequests ?h = geocodeRequests s"
    if "?q \<noteq> []" "k < length ?names" "?names ! k = ?q" "\<forall>j < k. ?names ! j \<noteq> ?q" for k
    by (rule found) (rule search_exact [OF that])
  have fuzzy: "?h = fitNeighborhood bv k (s\<lparr> selectedNeighborhoodIds := {k} \<rparr>)
           \<and> selectedNeighborhoodIds ?h = {k} \<and> geocodeRequests ?h = geocodeRequests s"
    if "?q \<noteq> []" "\<forall>j < length ?names. ?names ! j \<noteq> ?q" "k < length ?names"
      "includes' (?names ! k) ?q" "\<forall>j < k. \<not> includes' (?names ! j) ?q" for k
    by (rule found) (rule search_fuzzy [OF that])
  have fallback: "?h = geocodeFallback pf geocode s
        \<and> (isWellFormed (searchQuery s) \<longrightarrow>
             geocodeRequests ?h = geocodeRequests s @ [searchQuery s])"
    if "?q \<noteq> []" "\<forall>j < length ?names. \<not> includes' (?names ! j) ?q"
    using search_fallback [OF that]
    by (simp add: handleSearch_def geocodeFallback_def requests_settleGeocode sendGeocode_def)
  show ?thesis
    using empty blank exact fuzzy fallback includes_iff_sublist by blast
qed

text \<open>
  Claim C4 at a collection with the boundaries "Kensington Market" and "East End": an
  exact match, a substring of both names, a substring of the second name only, a blank
  query and a postal code.
\<close>

theorem search_priority_witness:
  "selectedNeighborhoodIds
     (handleSearch asciiLower asciiNfkd validBounds parseFloatTable geocodeFound
        (searching (js ''Kensington Market''))) = {0}
   \<and> geocodeRequests
       (handleSearch asciiLower asciiNfkd validBounds parseFloatTable geocodeFound
          (searching (js ''Kensington Market''))) = []
   \<and> selectedNeighborhoodIds
       (handleSearch asciiLower asciiNfkd validBounds parseFloatTable geocodeFound
          (searching (js ''en''))) = {0}
   \<and> selectedNeighborhoodIds
       (handleSearch asciiLower asciiNfkd validBounds parseFloatTable geocodeFound
          (searching (js ''East''))) = {1}
   \<and> handleSearch asciiLower asciiNfkd validBounds parseFloatTable geocodeFound
       (searching (js ''  '')) = searching (js ''  '')
   \<and> geocodeRequests
       (handleSearch asciiLower asciiNfkd validBounds parseFloatTable geocodeFound
          (searching (js ''M5V 2T6''))) = [js ''M5V 2T6'']"
proof -
  note T = search_priority [where lc = asciiLower and nf = asciiNfkd and bv = validBounds
      and pf = parseFloatTable and geocode = geocodeFound]
  have q1: "normalize asciiLower asciiNfkd (js ''Kensington Market'') = js ''kensington market''"
    and q2: "normalize asciiLower asciiNfkd (js ''en'') = js ''en''"
    and q3: "normalize asciiLower asciiNfkd (js ''East'') = js ''east''"
    and q4: "normalize asciiLower asciiNfkd (js ''M5V 2T6'') = js ''m5v 2t6''"
    by (simp_all add: concrete_defs search_defs)
  have exact: "selectedNeighborhoodIds
     (handleSearch asciiLower asciiNfkd validBounds parseFloatTable geocodeFound
        (searching (js ''Kensington Market''))) = {0}
   \<and> geocodeRequests
       (handleSearch asciiLower asciiNfkd validBounds parseFloatTable geocodeFound
          (searching (js ''Kensington Market''))) = []"
    using T [where s = "searching (js ''Kensington Market'')", THEN conjunct2, THEN conjunct2,
        THEN conjunct1, THEN mp, THEN spec, of 0]
    by (simp add: searching_fields names_two q1 sel_fitNeighborhood requests_fitNeighborhood)
      (simp add: js_def searching_fields sel_fitNeighborhood requests_fitNeighborhood)
  have fuzzy1: "selectedNeighborhoodIds
       (handleSearch asciiLower asciiNfkd validBounds parseFloatTable geocodeFound
          (searching (js ''en''))) = {0}"
    using T [where s = "searching (js ''en'')", THEN conjunct2, THEN conjunct2, THEN conjunct2,
        THEN conjunct1, THEN mp, THEN mp, THEN spec, of 0]
    by (simp add: searching_fields names_two q2 less_Suc_eq sel_fitNeighborhood
        requests_fitNeighborhood)
      (simp add: js_def searching_fields sel_fitNeighborhood requests_fitNeighborhood)
  have fuzzy2: "selectedNeighborhoodIds
       (handleSearch asciiLower asciiNfkd validBounds parseFloatTable geocodeFound
          (searching (js ''East''))) = {1}"
    using T [where s = "searching (js ''East'')", THEN conjunct2, THEN conjunct2, THEN conjunct2,
        THEN conjunct1, THEN mp, THEN mp, THEN spec, of 1]
    by (simp add: searching_fields names_two q3 less_Suc_eq sel_fitNeighborhood
        requests_fitNeighborhood)
      (simp add: js_def searching_fields sel_fitNeighborhood requests_fitNeighborhood)
  have blank: "handleSearch asciiLower asciiNfkd validBounds parseFloatTable geocodeFound
       (searching (js ''  '')) = searching (js ''  '')"
  proof (rule T [where s = "searching (js ''  '')", THEN conjunct2, THEN conjunct1, THEN mp,
          THEN mp])
    show "\<forall>x. list_all isWhiteSpace x \<longrightarrow> list_all isWhiteSpace (asciiNfkd (asciiLower x))"
      by (rule ascii_keeps_whitespace)
    show "list_all isWhiteSpace (searchQuery (searching (js ''  '')))"
      by (simp add: searching_fields js_def isWhiteSpace_def)
  qed
  have fallback: "geocodeRequests
       (handleSearch asciiLower asciiNfkd validBounds parseFloatTable geocodeFound
          (searching (js ''M5V 2T6''))) = [js ''M5V 2T6'']"
    using T [where s = "searching (js ''M5V 2T6'')", THEN conjunct2, THEN conjunct2,
        THEN conjunct2, THEN conjunct2, THEN conjunct1, THEN mp, THEN mp, THEN conjunct2,
        THEN mp]
    by (simp add: searching_fields names_two q4 less_Suc_eq)
      (simp add: js_def isHighSurrogate_def isLowSurrogate_def)
  show ?thesis
    by (intro conjI exact [THEN conjunct1] exact [THEN conjunct2] fuzzy1 fuzzy2 blank fallback)
qed

subsection \<open>The attribute criteria\<close>



subsection \<open>The geocode fallback\<close>

text \<open>
  Claim C6, as amended. When the request fails (network, HTTP status, body that does not
  parse, or a \<open>null\<close> first result) or cannot be built (a query that is not well formed)
  the handler only logs the error: selection, applied and draft criteria and the
  commands sent to the map are as before, and no second request is sent. On an answer whose first result has a latitude and a longitude that
  \<open>parseFloat\<close> reads, the selection is cleared and the map flies to that coordinate at
  zoom 13 provided that the handler had a map (\<open>map\<close> was not \<open>null\<close> when the search was
  submitted); without a map the answer changes nothing.
\<close>

theorem geocode_fallback:
  "(responseFailed r \<longrightarrow>
       settleGeocode pf m r s = s\<lparr> errorsLogged := errorsLogged s + 1 \<rparr>
     \<and> selectedNeighborhoodIds (settleGeocode pf m r s) = selectedNeighborhoodIds s
     \<and> selectedFilters (settleGeocode pf m r s) = selectedFilters s
     \<and> inputs (settleGeocode pf m r s) = inputs s
     \<and> viewCommands (settleGeocode pf m r s) = viewCommands s)
   \<and> geocodeRequests (settleGeocode pf m r s) = geocodeRequests s
   \<and> (pf a = Some x \<longrightarrow> pf b = Some y \<longrightarrow>
        settleGeocode pf True (Response True (Some (Results (Entry a b # rest)))) s =
          s\<lparr> selectedNeighborhoodIds := {}, viewCommands := viewCommands s @ [FlyTo x y 13] \<rparr>
      \<and> settleGeocode pf False (Response True (Some (Results (Entry a b # rest)))) s = s)
   \<and> (searchNeighborhoods lc nf bv s = None \<longrightarrow>
        handleSearch lc nf bv pf geocode s = geocodeFallback pf geocode s
      \<and> (\<not> isWellFormed (searchQuery s) \<longrightarrow>
           handleSearch lc nf bv pf geocode s = s\<lparr> errorsLogged := errorsLogged s + 1 \<rparr>)
      \<and> (isWellFormed (searchQuery s) \<longrightarrow>
           handleSearch lc nf bv pf geocode s =
             settleGeocode pf (mapReady s) (geocode (searchQuery s)) (sendGeocode s)
         \<and> geocodeRequests (handleSearch lc nf bv pf geocode s) =
             geocodeRequests s @ [searchQuery s]
         \<and> (responseFailed (geocode (searchQuery s)) \<longrightarrow>
              handleSearch lc nf bv pf geocode s =
                s\<lparr> geocodeRequests := geocodeRequests s @ [searchQuery s],
                   errorsLogged := errorsLogged s + 1 \<rparr>)))"
proof -
  have failed: "settleGeocode pf m r s = s\<lparr> errorsLogged := errorsLogged s + 1 \<rparr>
     \<and> selectedNeighborhoodIds (settleGeocode pf m r s) = selectedNeighborhoodIds s
     \<and> selectedFilters (settleGeocode pf m r s) = selectedFilters s
     \<and> inputs (settleGeocode pf m r s) = inputs s
     \<and> viewCommands (settleGeocode pf m r s) = viewCommands s"
    if "responseFailed r"
    by (simp add: settle_failed [OF that])
  have found: "settleGeocode pf True (Response True (Some (Results (Entry a b # rest)))) s =
          s\<lparr> selectedNeighborhoodIds := {}, viewCommands := viewCommands s @ [FlyTo x y 13] \<rparr>
      \<and> settleGeocode pf False (Response True (Some (Results (Entry a b # rest)))) s = s"
    if "pf a = Some x" "pf b = Some y"
    by (simp add: settle_found [OF that])
  have whole: "handleSearch lc nf bv pf geocode s = geocodeFallback pf geocode s
      \<and> (\<not> isWellFormed (searchQuery s) \<longrightarrow>
           handleSearch lc nf bv pf geocode s = s\<lparr> errorsLogged := errorsLogged s + 1 \<rparr>)
      \<and> (isWellFormed (searchQuery s) \<longrightarrow>
           handleSearch lc nf bv pf geocode s =
             settleGeocode pf (mapReady s) (geocode (searchQuery s)) (sendGeocode s)
         \<and> geocodeRequests (handleSearch lc nf bv pf geocode s) =
             geocodeRequests s @ [searchQuery s]
         \<and> (responseFailed (geocode (searchQuery s)) \<longrightarrow>
              handleSearch lc nf bv pf geocode s =
                s\<lparr> geocodeRequests := geocodeRequests s @ [searchQuery s],
                   errorsLogged := errorsLogged s + 1 \<rparr>))"
    if "searchNeighborhoods lc nf bv s = None"
    using that
    by (auto simp: handleSearch_def geocodeFallback_def logGeocodeFailure_def
        requests_settleGeocode settle_failed sendGeocode_def)
  show ?thesis
    using failed found whole requests_settleGeocode [of pf m r s] by blast
qed

text \<open>
  The amended claim C6 at a service that cannot be reached, at a service that finds
  the coordinate 43.65, -79.38, and at a query that is a lone surrogate.
\<close>

theorem geocode_fallback_witness:
  "responseFailed FetchRejected \<and> responseFailed (Response False None)
   \<and> settleGeocode parseFloatTable True FetchRejected (searching (js ''M5V 2T6'')) =
       (searching (js ''M5V 2T6''))\<lparr> errorsLogged := 1 \<rparr>
   \<and> handleSearch asciiLower asciiNfkd validBounds parseFloatTable geocodeDown
       (searching (js ''M5V 2T6'')) =
       (searching (js ''M5V 2T6''))\<lparr> geocodeRequests := [js ''M5V 2T6''], errorsLogged := 1 \<rparr>
   \<and> parseFloatTable ''43.65'' = Some 43.65 \<and> parseFloatTable ''-79.38'' = Some (-79.38)
   \<and> settleGeocode parseFloatTable True
       (Response True (Some (Results [Entry ''43.65'' ''-79.38''])))
       (searching (js ''M5V 2T6'')) =
       (searching (js ''M5V 2T6''))\<lparr> selectedNeighborhoodIds := {},
          viewCommands := [FlyTo 43.65 (-79.38) 13] \<rparr>
   \<and> settleGeocode parseFloatTable False
       (Response True (Some (Results [Entry ''43.65'' ''-79.38''])))
       (searching (js ''M5V 2T6'')) = searching (js ''M5V 2T6'')
   \<and> handleSearch asciiLower asciiNfkd validBounds parseFloatTable geocodeFound
       (searching [0xD800]) = (searching [0xD800])\<lparr> errorsLogged := 1 \<rparr>"
proof -
  let ?s = "searching (js ''M5V 2T6'')"
  let ?u = "searching [0xD800]"
  have none': "searchNeighborhoods asciiLower asciiNfkd validBounds ?u = None"
    by (simp add: searching_def concrete_defs search_defs)
  have ill: "\<not> isWellFormed (searchQuery ?u)"
    by (simp add: searching_fields isHighSurrogate_def isLowSurrogate_def)
  have u: "handleSearch asciiLower asciiNfkd validBounds parseFloatTable geocodeFound ?u =
       ?u\<lparr> errorsLogged := 1 \<rparr>"
    using geocode_fallback [where pf = parseFloatTable and s = ?u and lc = asciiLower
        and nf = asciiNfkd and bv = validBounds and geocode = geocodeFound,
        THEN conjunct2, THEN conjunct2, THEN conjunct2, THEN mp, OF none',
        THEN conjunct2, THEN conjunct1, THEN mp, OF ill]
    by (simp add: searching_fields)
  note T = geocode_fallback [where pf = parseFloatTable and s = ?s and lc = asciiLower
      and nf = asciiNfkd and bv = validBounds and geocode = geocodeDown]
  have f1: "responseFailed FetchRejected" and f2: "responseFailed (Response False None)"
    by simp_all
  have a: "settleGeocode parseFloatTable True FetchRejected ?s = ?s\<lparr> errorsLogged := 1 \<rparr>"
    using T [where r = FetchRejected and m = True, THEN conjunct1, THEN mp, OF f1, THEN conjunct1]
    by (simp add: searching_fields)
  have none: "searchNeighborhoods asciiLower asciiNfkd validBounds ?s = None"
    by (simp add: searching_def concrete_defs search_defs)
  have wf: "isWellFormed (searchQuery ?s)"
    by (simp add: searching_fields js_def isHighSurrogate_def isLowSurrogate_def)
  have b: "handleSearch asciiLower asciiNfkd validBounds parseFloatTable geocodeDown ?s =
       ?s\<lparr> geocodeRequests := [js ''M5V 2T6''], errorsLogged := 1 \<rparr>"
    using T [THEN conjunct2, THEN conjunct2, THEN conjunct2, THEN mp, OF none,
        THEN conjunct2, THEN conjunct2, THEN mp, OF wf, THEN conjunct2, THEN conjunct2]
    by (simp add: searching_fields geocodeDown_def)
  have p1: "parseFloatTable ''43.65'' = Some 43.65"
    and p2: "parseFloatTable ''-79.38'' = Some (-79.38)"
    by (simp_all add: parseFloatTable_def)
  note found = T [where a = "''43.65''" and b = "''-79.38''" and x = "43.65" and y = "-79.38"
      and rest = "[]", THEN conjunct2, THEN conjunct2, THEN conjunct1, THEN mp, OF p1,
      THEN mp, OF p2]
  have c: "settleGeocode parseFloatTable True
       (Response True (Some (Results [Entry ''43.65'' ''-79.38'']))) ?s =
       ?s\<lparr> selectedNeighborhoodIds := {}, viewCommands := [FlyTo 43.65 (-79.38) 13] \<rparr>"
    using found [THEN conjunct1] by (simp add: searching_fields)
  have d: "settleGeocode parseFloatTable False
       (Response True (Some (Results [Entry ''43.65'' ''-79.38'']))) ?s = ?s"
    using found [THEN conjunct2] .
  show ?thesis by (intro conjI f1 f2 a b p1 p2 c d u)
qed

text \<open>
  Claim C6 as stated fails when the map has not been created: the search for a postal
  code gets a successful answer with a valid coordinate, and the selection stays
  \<open>{1}\<close> and no command is sent to the map.
\<close>

theorem geocode_success_without_map:
  "mapReady (searching (js ''M5V 2T6'')) = False
   \<and> geocodeFound (searchQuery (searching (js ''M5V 2T6''))) =
       Response True (Some (Results [Entry ''43.65'' ''-79.38'']))
   \<and> parseFloatTable ''43.65'' = Some 43.65 \<and> parseFloatTable ''-79.38'' = Some (-79.38)
   \<and> geocodeRequests
       (handleSearch asciiLower asciiNfkd validBounds parseFloatTable geocodeFound
          (searching (js ''M5V 2T6''))) = [js ''M5V 2T6'']
   \<and> selectedNeighborhoodIds
       (handleSearch asciiLower asciiNfkd validBounds parseFloatTable geocodeFound
          (searching (js ''M5V 2T6''))) = {1}
   \<and> viewCommands
       (handleSearch asciiLower asciiNfkd validBounds parseFloatTable geocodeFound
          (searching (js ''M5V 2T6''))) = []"
  by (simp add: searching_def concrete_defs search_defs)

subsection \<open>The selection rule\<close>

text \<open>
  Claim C7, as amended. Selecting the boundary that is the sole member of the selection
  gives the empty selection, and selecting a boundary in any other state gives the
  selection of that boundary alone. Hence selecting the same boundary twice in a row
  gives the empty selection from every state but the selection of that boundary alone,
  from which it gives that selection back. The click on the map and the checkbox of the
  filter tab both apply this rule.
\<close>

theorem select_toggle_rule:
  "(prev = {idx} \<longrightarrow> selectOnly prev idx = {})
   \<and> (prev \<noteq> {idx} \<longrightarrow> selectOnly prev idx = {idx})
   \<and> (prev \<noteq> {idx} \<longrightarrow> selectOnly (selectOnly prev idx) idx = {})
   \<and> (prev = {idx} \<longrightarrow> selectOnly (selectOnly prev idx) idx = {idx})
   \<and> selectedNeighborhoodIds (clickNeighborhood idx s) = selectOnly (selectedNeighborhoodIds s) idx
   \<and> selectedNeighborhoodIds (checkNeighborhood idx s) = selectOnly (selectedNeighborhoodIds s) idx"
  by (simp add: selectOnly_eq clickNeighborhood_def checkNeighborhood_def)

text \<open>
  The amended claim C7 at the selections \<open>{2}\<close>, \<open>{1}\<close> and \<open>{}\<close> and the boundary 2.
\<close>

theorem select_toggle_rule_witness:
  "selectOnly {2} 2 = {} \<and> selectOnly {1} 2 = {2} \<and> selectOnly {} 2 = {2}
   \<and> selectOnly (selectOnly {1} 2) 2 = {} \<and> selectOnly (selectOnly {} 2) 2 = {}
   \<and> selectOnly (selectOnly {2} 2) 2 = {2}
   \<and> selectedNeighborhoodIds (clickNeighborhood 2 (initialState [] :: unit app_state)) = {2}"
proof -
  let ?s0 = "initialState [] :: unit app_state"
  have s0: "selectedNeighborhoodIds ?s0 = {}"
    by (simp add: initialState_def)
  note A = select_toggle_rule [of "{2}" 2 ?s0]
  note B = select_toggle_rule [of "{1}" 2 ?s0]
  note C = select_toggle_rule [of "{}" 2 ?s0]
  have a1: "selectOnly {2} 2 = {}"
    using A [THEN conjunct1] by simp
  have a2: "selectOnly (selectOnly {2} 2) 2 = {2}"
    using A [THEN conjunct2, THEN conjunct2, THEN conjunct2, THEN conjunct1] by simp
  have b1: "selectOnly {1} 2 = {2}"
    using B [THEN conjunct2, THEN conjunct1] by simp
  have b2: "selectOnly (selectOnly {1} 2) 2 = {}"
    using B [THEN conjunct2, THEN conjunct2, THEN conjunct1] by simp
  have c1: "selectOnly {} 2 = {2}"
    using C [THEN conjunct2, THEN conjunct1] by simp
  have c2: "selectOnly (selectOnly {} 2) 2 = {}"
    using C [THEN conjunct2, THEN conjunct2, THEN conjunct1] by simp
  have d: "selectedNeighborhoodIds (clickNeighborhood 2 ?s0) = {2}"
    using C [THEN conjunct2, THEN conjunct2, THEN conjunct2, THEN conjunct2, THEN conjunct1]
    unfolding s0 c1 .
  show ?thesis
    by (intro conjI a1 a2 b1 b2 c1 c2 d)
qed

text \<open>
  Claim C7 as stated fails: from the selection \<open>{0}\<close>, selecting the boundary 0 twice
  gives \<open>{0}\<close>, not the empty selection.
\<close>

theorem select_twice_from_singleton: "selectOnly (selectOnly {0} 0) 0 = {0} \<and> {0::nat} \<noteq> {}"
  by (simp add: selectOnly_def Let_def)

subsection \<open>Draft and applied criteria\<close>



subsection \<open>The stop condition and the identifiers\<close>



subsection \<open>The selection holds at most one boundary\<close>

text \<open>
  Claim C10. In every state that a sequence of events reaches from the initial state,
  the selection is empty or a singleton; and every event leaves the selection as it is
  or writes an empty or singleton selection (the click on the map, the checkbox, an
  exact or a substring match of the search, a geocoding success, and clear).
\<close>

theorem selection_at_most_one:
  "(reachable lc nf bv pf generated s \<longrightarrow>
      atMostOne (selectedNeighborhoodIds s)
    \<and> finite (selectedNeighborhoodIds s) \<and> card (selectedNeighborhoodIds s) \<le> 1)
   \<and> (selectedNeighborhoodIds (step lc nf bv pf e s') = selectedNeighborhoodIds s'
      \<or> atMostOne (selectedNeighborhoodIds (step lc nf bv pf e s')))"
proof -
  have "atMostOne (selectedNeighborhoodIds s)" if "reachable lc nf bv pf generated s"
    using that
  proof (induction rule: reachable.induct)
    case initial
    show ?case by (simp add: initialState_def atMostOne_def)
  next
    case (after s e)
    with sel_step [of lc nf bv pf e s] show ?case by auto
  qed
  then show ?thesis
    using sel_step [of lc nf bv pf e s'] by (auto simp: atMostOne_def)
qed

text \<open>
  Claim C10 at the state after the boundaries were loaded and the second one was
  clicked.
\<close>

theorem selection_at_most_one_witness:
  "reachable asciiLower asciiNfkd validBounds parseFloatTable [record_1, record_2]
     (run [NeighborhoodsLoaded twoBoundaries, ClickNeighborhood 1])
   \<and> selectedNeighborhoodIds (run [NeighborhoodsLoaded twoBoundaries, ClickNeighborhood 1]) = {1}
   \<and> atMostOne (selectedNeighborhoodIds (run [NeighborhoodsLoaded twoBoundaries, ClickNeighborhood 1]))
   \<and> card (selectedNeighborhoodIds (run [NeighborhoodsLoaded twoBoundaries, ClickNeighborhood 1])) \<le> 1"
proof -
  let ?s = "run [NeighborhoodsLoaded twoBoundaries, ClickNeighborhood 1]"
  have "?s = step asciiLower asciiNfkd validBounds parseFloatTable (ClickNeighborhood 1)
      (step asciiLower asciiNfkd validBounds parseFloatTable (NeighborhoodsLoaded twoBoundaries)
        (initialState [record_1, record_2]))"
    by (simp add: run_def)
  then have r: "reachable asciiLower asciiNfkd validBounds parseFloatTable [record_1, record_2] ?s"
    by (simp only: reachable.intros)
  have v: "selectedNeighborhoodIds ?s = {1}"
    by (simp add: run_def initialState_def clickNeighborhood_def selectOnly_def)
  note T = selection_at_most_one [where e = MapCreated and s' = ?s, THEN conjunct1, THEN mp, OF r]
  show ?thesis by (intro conjI r v T [THEN conjunct1] T [THEN conjunct2, THEN conjunct2])
qed

end
